theory Spec2Isabelle
  imports Complex_Main
begin

section \<open>Values exchanged with the upstream API\<close>

text \<open>
  \<^verbatim>\<open>app.py\<close> handles the Python values that \<^verbatim>\<open>response.json()\<close> produces:
  \<^verbatim>\<open>None\<close>, booleans, unbounded integers, floats, strings, lists and dictionaries.
  A float is a finite value (kept as the rational it denotes), a negative zero, an
  infinity or a NaN. A dictionary is an association list in insertion order, read by
  its first entry for a key.
\<close>

datatype pyfloat = Fin rat | NegZero | PosInf | NegInf | NaN

datatype json =
    JNull
  | JBool bool
  | JInt int
  | JFloat pyfloat
  | JStr string
  | JArr "json list"
  | JObj "(string \<times> json) list"

text \<open>The exceptions that the modelled operations raise.\<close>

datatype pyerr =
    KeyError
  | TypeError
  | ValueError
  | AttributeError
  | OverflowError
  | RequestException
  | LibraryError

text \<open>
  What \<^verbatim>\<open>requests.get\<close> followed by \<^verbatim>\<open>response.json()\<close> can give:
  the call raises (connection error, timeout), or a response arrives with a status code
  and a body; the body is \<open>None\<close> when it is not JSON, so that
  \<^verbatim>\<open>response.json()\<close> raises.
\<close>

datatype http_result = TransportFailure | Response int "json option"

text \<open>\<^verbatim>\<open>obj[key]\<close> with a string key: only a dictionary accepts it.\<close>

fun getitem :: "json \<Rightarrow> string \<Rightarrow> pyerr + json" where
  "getitem (JObj kvs) k = (case map_of kvs k of None \<Rightarrow> Inl KeyError | Some v \<Rightarrow> Inr v)"
| "getitem _ k = Inl TypeError"

text \<open>Truth value of an object, as \<^verbatim>\<open>if x:\<close> tests it.\<close>

fun truthy :: "json \<Rightarrow> bool" where
  "truthy JNull = False"
| "truthy (JBool b) = b"
| "truthy (JInt n) = (n \<noteq> 0)"
| "truthy (JFloat f) = (f \<noteq> Fin 0 \<and> f \<noteq> NegZero)"
| "truthy (JStr s) = (s \<noteq> [])"
| "truthy (JArr xs) = (xs \<noteq> [])"
| "truthy (JObj kvs) = (kvs \<noteq> [])"

text \<open>
  Sequencing of operations that may raise: the first exception ends the computation.
\<close>

definition bnd :: "pyerr + 'a \<Rightarrow> ('a \<Rightarrow> pyerr + 'b) \<Rightarrow> pyerr + 'b" where
  "bnd m f = (case m of Inl e \<Rightarrow> Inl e | Inr x \<Rightarrow> f x)"

section \<open>Floats and their rendering\<close>

text \<open>
  Python floats are IEEE 754 doubles. \<open>round_double\<close> is the rounding that every
  float operation ends with: the nearest double, ties to the even significand, with
  53 significant bits down to the exponent \<open>-1022\<close>, below it the fixed spacing
  \<open>2 ^ -1074\<close>, and an infinity from \<open>2 ^ 1024\<close> on.
\<close>

definition round_half_even :: "rat \<Rightarrow> int" where
  "round_half_even x =
     (let f = \<lfloor>x\<rfloor>; r = x - of_int f in
      if r < 1 / 2 then f
      else if 1 / 2 < r then f + 1
      else if even f then f else f + 1)"

definition pow2 :: "int \<Rightarrow> rat" where
  "pow2 e = (if 0 \<le> e then 2 ^ nat e else 1 / 2 ^ nat (- e))"

fun bit_length :: "nat \<Rightarrow> nat" where
  "bit_length n = (if n = 0 then 0 else Suc (bit_length (n div 2)))"

declare bit_length.simps [simp del]

text \<open>The binary exponent of a positive rational: \<open>2 ^ ilog2 a \<le> a < 2 ^ (ilog2 a + 1)\<close>.\<close>

definition ilog2 :: "rat \<Rightarrow> int" where
  "ilog2 a =
     (if 1 \<le> a then int (bit_length (nat \<lfloor>a\<rfloor>)) - 1
      else - int (bit_length (nat (\<lceil>1 / a\<rceil> - 1))))"

definition round_double :: "rat \<Rightarrow> pyfloat" where
  "round_double q =
     (if q = 0 then Fin 0
      else
        let a = \<bar>q\<bar>;
            e = max (ilog2 a) (- 1022);
            ulp = pow2 (e - 52);
            m = round_half_even (a / ulp);
            r = of_int m * ulp
        in if pow2 1024 \<le> r then (if q < 0 then NegInf else PosInf)
           else if m = 0 then (if q < 0 then NegZero else Fin 0)
           else Fin (if q < 0 then - r else r))"

text \<open>\<^verbatim>\<open>float(n)\<close> for an integer: the nearest double, or OverflowError.\<close>

definition float_of_int :: "int \<Rightarrow> pyerr + pyfloat" where
  "float_of_int n =
     (case round_double (of_int n) of
        PosInf \<Rightarrow> Inl OverflowError
      | NegInf \<Rightarrow> Inl OverflowError
      | f \<Rightarrow> Inr f)"

text \<open>\<^verbatim>\<open>value >= n\<close> for a float and an integer literal: an exact comparison.\<close>

fun float_ge :: "pyfloat \<Rightarrow> int \<Rightarrow> bool" where
  "float_ge (Fin q) n = (of_int n \<le> q)"
| "float_ge NegZero n = (n \<le> 0)"
| "float_ge PosInf n = True"
| "float_ge NegInf n = False"
| "float_ge NaN n = False"

text \<open>
  \<^verbatim>\<open>value / n\<close> for a float and a positive integer literal that is itself a double
  (\<open>1000000\<close> and \<open>1000000000\<close> are): the quotient, rounded.
\<close>

fun float_div :: "pyfloat \<Rightarrow> int \<Rightarrow> pyfloat" where
  "float_div (Fin q) n = round_double (q / of_int n)"
| "float_div NegZero n = NegZero"
| "float_div PosInf n = PosInf"
| "float_div NegInf n = NegInf"
| "float_div NaN n = NaN"

text \<open>
  The format specifications \<^verbatim>\<open>.pf\<close> and \<^verbatim>\<open>,.pf\<close>: the decimal with \<open>p\<close>
  digits after the point that is nearest to the float (ties to the even digit), the
  integer part grouped in thousands when \<open>grouping\<close> is set.
\<close>

definition digit :: "nat \<Rightarrow> char" where
  "digit d = ''0123456789'' ! d"

fun dec :: "nat \<Rightarrow> string" where
  "dec n = (if n < 10 then [digit n] else dec (n div 10) @ [digit (n mod 10)])"

declare dec.simps [simp del]

fun group3 :: "string \<Rightarrow> string" where
  "group3 s =
     (if length s \<le> 3 then s
      else group3 (take (length s - 3) s) @ '','' @ drop (length s - 3) s)"

declare group3.simps [simp del]

definition fixed :: "nat \<Rightarrow> bool \<Rightarrow> rat \<Rightarrow> string" where
  "fixed p grouping a =
     (let N = nat (round_half_even (a * 10 ^ p));
          whole = dec (N div 10 ^ p);
          frac = dec (N mod 10 ^ p)
      in (if grouping then group3 whole else whole) @
         (if p = 0 then [] else ''.'' @ replicate (p - length frac) (CHR ''0'') @ frac))"

fun format_f :: "nat \<Rightarrow> bool \<Rightarrow> pyfloat \<Rightarrow> string" where
  "format_f p g (Fin q) = (if q < 0 then ''-'' else []) @ fixed p g \<bar>q\<bar>"
| "format_f p g NegZero = ''-'' @ fixed p g 0"
| "format_f p g PosInf = ''inf''"
| "format_f p g NegInf = ''-inf''"
| "format_f p g NaN = ''nan''"

text \<open>The euro sign, as the three bytes of its UTF-8 encoding.\<close>

definition euro :: string where
  "euro = [CHR 0xE2, CHR 0x82, CHR 0xAC]"

section \<open>Library behaviour taken as a parameter\<close>

text \<open>
  A frame is the time-indexed table that \<^verbatim>\<open>get_coin_history\<close> builds: rows of a
  timestamp (nanoseconds since the epoch, or \<open>None\<close> for pandas' NaT) and the value
  that the second column holds for the row. A table is the projection of the coin list that the global view
  shows: a row per coin, a cell per column, \<open>None\<close> where the coin has no such key.
\<close>

text \<open>
  The operations of Python, pandas and streamlit that the code calls and that are not
  modelled here are the fields of a record, so that every statement holds for whatever
  they do:
  \<^item> \<open>float_of_str\<close>: \<^verbatim>\<open>float(s)\<close> for a string;
  \<^item> \<open>str_upper\<close>: \<^verbatim>\<open>s.upper()\<close>;
  \<^item> \<open>format_value\<close>: the text that an f-string puts for a value without a
    format specification;
  \<^item> \<open>frame_other\<close>: what the three pandas calls of \<^verbatim>\<open>get_coin_history\<close> do
    with data that is not a list of \<^verbatim>\<open>[milliseconds, number]\<close> rows as described
    with \<open>time_indexed\<close> below;
  \<^item> \<open>st_reject_image\<close>, \<open>st_reject_delta\<close>, \<open>st_reject_table\<close>,
    \<open>st_reject_chart\<close>: the exception, if any, with which the presentation layer
    refuses the image, the metric delta, the table or the chart data handed to it; these
    are the calls that receive upstream values as they are. The other calls receive
    strings built by the program and are taken to succeed.
\<close>

type_synonym frame = "(int option \<times> json) list"

type_synonym table = "json option list list"

record lib =
  float_of_str :: "string \<Rightarrow> pyerr + pyfloat"
  str_upper :: "string \<Rightarrow> string"
  format_value :: "json \<Rightarrow> string"
  frame_other :: "json \<Rightarrow> pyerr + frame"
  st_reject_image :: "json \<Rightarrow> pyerr option"
  st_reject_delta :: "json \<Rightarrow> pyerr option"
  st_reject_table :: "table \<Rightarrow> pyerr option"
  st_reject_chart :: "frame \<Rightarrow> pyerr option"

section \<open>Number Formatter\<close>

text \<open>\<^verbatim>\<open>float(number)\<close> for a value that is not \<^verbatim>\<open>None\<close>.\<close>

fun to_float :: "lib \<Rightarrow> json \<Rightarrow> pyerr + pyfloat" where
  "to_float L (JFloat f) = Inr f"
| "to_float L (JInt n) = float_of_int n"
| "to_float L (JBool b) = Inr (Fin (if b then 1 else 0))"
| "to_float L (JStr s) = float_of_str L s"
| "to_float L _ = Inl TypeError"

definition format_big_number :: "lib \<Rightarrow> json \<Rightarrow> pyerr + string" where
  "format_big_number L number =
     (if number = JNull then Inr ''N/A''
      else
        bnd (to_float L number) (\<lambda>val.
          if float_ge val 1000000000 then
            Inr (euro @ '' '' @ format_f 2 False (float_div val 1000000000) @ '' Mrd.'')
          else if float_ge val 1000000 then
            Inr (euro @ '' '' @ format_f 2 False (float_div val 1000000) @ '' Mio.'')
          else
            Inr (euro @ '' '' @ format_f 2 True val)))"

section \<open>The rendering log\<close>

text \<open>
  A render pass is observed through the calls it makes, in order: the calls to the
  presentation layer (\<^verbatim>\<open>st.*\<close>, \<^verbatim>\<open>print\<close>) and the calls to the three
  data-access functions.
\<close>

datatype event =
    SidebarTitle string
  | SidebarInfo string
  | StError
  | Print string
  | Warning string
  | Selectbox string "json list"
  | SidebarWrite string
  | Radio string "string list"
  | Title string
  | Columns nat
  | Metric string string "json option"
  | Write string
  | Subheader string
  | Dataframe table
  | Image json nat
  | Tabs "string list"
  | LineChart frame
  | BarChart frame
  | AreaChart frame
  | Call_get_coins_list
  | Call_get_global_data
  | Call_get_coin_history json int

text \<open>
  A computation of \<^verbatim>\<open>main\<close> takes the log so far and gives the log it leaves
  and either the exception it raised or its value. What was rendered before an
  exception stays in the log.
\<close>

type_synonym 'a py = "event list \<Rightarrow> event list \<times> (pyerr + 'a)"

definition ret :: "'a \<Rightarrow> 'a py" where
  "ret x = (\<lambda>evs. (evs, Inr x))"

definition lift :: "pyerr + 'a \<Rightarrow> 'a py" where
  "lift r = (\<lambda>evs. (evs, r))"

definition emit :: "event \<Rightarrow> unit py" where
  "emit ev = (\<lambda>evs. (evs @ [ev], Inr ()))"

definition emit_checked :: "pyerr option \<Rightarrow> event \<Rightarrow> unit py" where
  "emit_checked rejected ev =
     (\<lambda>evs. case rejected of Some e \<Rightarrow> (evs, Inl e) | None \<Rightarrow> (evs @ [ev], Inr ()))"

definition seq :: "'a py \<Rightarrow> ('a \<Rightarrow> 'b py) \<Rightarrow> 'b py" where
  "seq m f = (\<lambda>evs. case m evs of (evs', Inl e) \<Rightarrow> (evs', Inl e) | (evs', Inr x) \<Rightarrow> f x evs')"

section \<open>Market Data Client\<close>

text \<open>
  \<^verbatim>\<open>requests.get(...)\<close> returns the response or raises; \<^verbatim>\<open>response.json()\<close>
  returns the parsed body or raises. The \<^verbatim>\<open>st.cache_data\<close> decorator is left out: a
  call answered from the cache returns what an earlier execution of the body returned.
\<close>

definition requests_get :: "http_result \<Rightarrow> pyerr + int \<times> json option" where
  "requests_get r =
     (case r of TransportFailure \<Rightarrow> Inl RequestException | Response status body \<Rightarrow> Inr (status, body))"

definition response_json :: "json option \<Rightarrow> pyerr + json" where
  "response_json body = (case body of None \<Rightarrow> Inl ValueError | Some data \<Rightarrow> Inr data)"

text \<open>
  \<^verbatim>\<open>get_coins_list\<close>: the \<^verbatim>\<open>try\<close> block gives the parsed body on status 200 and
  the empty list, after a \<^verbatim>\<open>print\<close>, on any other status; the handler of
  \<^verbatim>\<open>Exception\<close> shows an error and gives the empty list. The second component is
  what the function printed or showed.
\<close>

definition get_coins_list_try :: "http_result \<Rightarrow> pyerr + json \<times> event list" where
  "get_coins_list_try r =
     bnd (requests_get r) (\<lambda>(status, body).
       if status = 200 then bnd (response_json body) (\<lambda>data. Inr (data, []))
       else Inr (JArr [], [Print ''Error loading coins'']))"

definition get_coins_list :: "http_result \<Rightarrow> json \<times> event list" where
  "get_coins_list r =
     (case get_coins_list_try r of
        Inr result \<Rightarrow> result
      | Inl e \<Rightarrow> (JArr [], [StError]))"

text \<open>
  \<^verbatim>\<open>get_coin_history\<close>. Each of the three series is built by the same three pandas
  calls: a two-column frame from the rows, the first column converted from milliseconds
  to timestamps, that column made the index. The model gives the outcome on a list,
  empty or not, of rows \<^verbatim>\<open>[t, v]\<close> with \<open>t\<close> an integer number of milliseconds that
  a nanosecond timestamp can hold, and with values \<open>v\<close> that make a numeric column. 
  pandas gives a column one type: the values stay as they are when all of them are
  integers of 64 bits (so also in the empty column); when integers of 64 bits, floats
  and nulls are mixed, with a number among them, the column is one of floats, an integer
  becoming the nearest float and a null NaN. The frame has one row per element, in the
  order of the list. On anything else the outcome is \<open>frame_other\<close>.
\<close>

definition int64 :: "int \<Rightarrow> bool" where
  "int64 n = (- (2 ^ 63) \<le> n \<and> n < 2 ^ 63)"

fun int_cell :: "json \<Rightarrow> bool" where
  "int_cell (JInt n) = int64 n"
| "int_cell _ = False"

fun number_cell :: "json \<Rightarrow> bool" where
  "number_cell (JInt n) = True"
| "number_cell (JFloat f) = True"
| "number_cell _ = False"

fun float_cell :: "json \<Rightarrow> json option" where
  "float_cell (JInt n) = (if int64 n then Some (JFloat (round_double (of_int n))) else None)"
| "float_cell (JFloat f) = Some (JFloat f)"
| "float_cell JNull = Some (JFloat NaN)"
| "float_cell _ = None"

definition column_values :: "json list \<Rightarrow> json list option" where
  "column_values cells =
     (if list_all int_cell cells then Some cells
      else if list_ex number_cell cells then those (map float_cell cells)
      else None)"

fun ms_row :: "json \<Rightarrow> (int \<times> json) option" where
  "ms_row (JArr [JInt t, v]) = (if \<bar>t\<bar> \<le> 9223372036854 then Some (t, v) else None)"
| "ms_row _ = None"

definition time_index :: "(int \<times> json) list \<Rightarrow> int option list" where
  "time_index rows = map (\<lambda>row. Some (fst row * 1000000)) rows"

definition time_indexed :: "lib \<Rightarrow> json \<Rightarrow> pyerr + frame" where
  "time_indexed L rows_data =
     (case rows_data of
        JArr rows \<Rightarrow>
          (case those (map ms_row rows) of
             Some pairs \<Rightarrow>
               (case column_values (map snd pairs) of
                  Some cells \<Rightarrow> Inr (zip (time_index pairs) cells)
                | None \<Rightarrow> frame_other L rows_data)
           | None \<Rightarrow> frame_other L rows_data)
      | _ \<Rightarrow> frame_other L rows_data)"

definition get_coin_history_try :: "lib \<Rightarrow> http_result \<Rightarrow> pyerr + frame \<times> frame \<times> frame" where
  "get_coin_history_try L r =
     bnd (requests_get r) (\<lambda>(status, body).
     bnd (response_json body) (\<lambda>data.
     bnd (getitem data ''prices'') (\<lambda>prices_data.
     bnd (time_indexed L prices_data) (\<lambda>df_prices.
     bnd (getitem data ''market_caps'') (\<lambda>caps_data.
     bnd (time_indexed L caps_data) (\<lambda>df_caps.
     bnd (getitem data ''total_volumes'') (\<lambda>vol_data.
     bnd (time_indexed L vol_data) (\<lambda>df_vol.
     Inr (df_prices, df_caps, df_vol)))))))))"

text \<open>
  The function returns a triple; each component is a frame or \<^verbatim>\<open>None\<close>.
\<close>

definition get_coin_history :: "lib \<Rightarrow> http_result \<Rightarrow> frame option \<times> frame option \<times> frame option" where
  "get_coin_history L r =
     (case get_coin_history_try L r of
        Inr (df_prices, df_caps, df_vol) \<Rightarrow> (Some df_prices, Some df_caps, Some df_vol)
      | Inl e \<Rightarrow> (None, None, None))"

text \<open>
  \<^verbatim>\<open>get_global_data\<close>: on status 200 the \<^verbatim>\<open>'data'\<close> entry of the body; on any
  other status the function ends without a \<^verbatim>\<open>return\<close>, which gives \<^verbatim>\<open>None\<close>;
  the bare \<^verbatim>\<open>except\<close> gives \<^verbatim>\<open>None\<close> too. \<^verbatim>\<open>None\<close> is \<open>JNull\<close>.
\<close>

definition get_global_data_try :: "http_result \<Rightarrow> pyerr + json" where
  "get_global_data_try r =
     bnd (requests_get r) (\<lambda>(status, body).
       if status = 200 then bnd (response_json body) (\<lambda>data. getitem data ''data'')
       else Inr JNull)"

definition get_global_data :: "http_result \<Rightarrow> json" where
  "get_global_data r = (case get_global_data_try r of Inr v \<Rightarrow> v | Inl e \<Rightarrow> JNull)"

section \<open>View Controller\<close>

text \<open>
  The inputs of a render pass: the responses of the three endpoints (the history
  endpoint by coin id and number of days), and what the two widgets return. The
  selectbox returns one of its options; the model covers the choice of an option that is
  a string, so that \<^verbatim>\<open>==\<close> against a value is: a string with the same characters.
\<close>

record upstream =
  markets :: http_result
  global_resp :: http_result
  market_chart :: "json \<Rightarrow> int \<Rightarrow> http_result"

text \<open>\<^verbatim>\<open>len(x) == 0\<close> and \<^verbatim>\<open>for coin in x\<close>.\<close>

fun len_is_zero :: "json \<Rightarrow> pyerr + bool" where
  "len_is_zero (JArr xs) = Inr (xs = [])"
| "len_is_zero (JObj kvs) = Inr (kvs = [])"
| "len_is_zero (JStr s) = Inr (s = [])"
| "len_is_zero _ = Inl TypeError"

fun py_iter :: "json \<Rightarrow> pyerr + json list" where
  "py_iter (JArr xs) = Inr xs"
| "py_iter (JObj kvs) = Inr (map (\<lambda>kv. JStr (fst kv)) kvs)"
| "py_iter (JStr s) = Inr (map (\<lambda>c. JStr [c]) s)"
| "py_iter _ = Inl TypeError"

text \<open>The timeframe conversion (\<^verbatim>\<open>days_int\<close>).\<close>

definition days_int :: "string \<Rightarrow> int" where
  "days_int days_option =
     (if days_option = ''30 Days'' then 30
      else if days_option = ''90 Days'' then 90
      else 7)"

text \<open>The loop that fills \<^verbatim>\<open>coin_names\<close>, and the loop that finds the selected coin
  (\<^verbatim>\<open>selected_coin\<close> stays \<^verbatim>\<open>None\<close>, here \<open>JNull\<close>, when no name matches).\<close>

fun coin_names_loop :: "json list \<Rightarrow> json list \<Rightarrow> pyerr + json list" where
  "coin_names_loop [] coin_names = Inr coin_names"
| "coin_names_loop (coin # rest) coin_names =
     bnd (getitem coin ''name'') (\<lambda>name. coin_names_loop rest (coin_names @ [name]))"

fun find_coin :: "json list \<Rightarrow> string \<Rightarrow> pyerr + json" where
  "find_coin [] selection = Inr JNull"
| "find_coin (coin # rest) selection =
     bnd (getitem coin ''name'') (\<lambda>name.
       if name = JStr selection then Inr coin else find_coin rest selection)"

text \<open>Text of a value inside an f-string, and of an integer.\<close>

definition show_int :: "int \<Rightarrow> string" where
  "show_int i = (if i < 0 then ''-'' @ dec (nat (- i)) else dec (nat i))"

fun fstr :: "lib \<Rightarrow> json \<Rightarrow> string" where
  "fstr L (JStr s) = s"
| "fstr L (JInt n) = show_int n"
| "fstr L v = format_value L v"

text \<open>\<^verbatim>\<open>f"{x:.1f}"\<close>: floats, integers and booleans accept the specification.\<close>

fun format_spec_f :: "nat \<Rightarrow> json \<Rightarrow> pyerr + string" where
  "format_spec_f p (JFloat f) = Inr (format_f p False f)"
| "format_spec_f p (JInt n) = bnd (float_of_int n) (\<lambda>f. Inr (format_f p False f))"
| "format_spec_f p (JBool b) = Inr (format_f p False (Fin (if b then 1 else 0)))"
| "format_spec_f p (JStr s) = Inl ValueError"
| "format_spec_f p _ = Inl TypeError"

fun upper :: "lib \<Rightarrow> json \<Rightarrow> pyerr + string" where
  "upper L (JStr s) = Inr (str_upper L s)"
| "upper L _ = Inl AttributeError"

text \<open>
  \<^verbatim>\<open>pd.DataFrame(coins_data)\<close> followed by the selection of five columns. For a list
  of dictionaries the frame has the union of their keys as columns, and selecting a
  column that is not among them raises KeyError. \<^verbatim>\<open>main\<close> reaches this call only
  with a list of dictionaries.
\<close>

definition shown_columns :: "string list" where
  "shown_columns =
     [''name'', ''symbol'', ''current_price'', ''price_change_percentage_24h'', ''market_cap'']"

fun dict_items :: "json \<Rightarrow> (string \<times> json) list option" where
  "dict_items (JObj kvs) = Some kvs"
| "dict_items _ = None"

definition simple_df :: "json \<Rightarrow> pyerr + table" where
  "simple_df coins_data =
     (case coins_data of
        JArr coins \<Rightarrow>
          (case those (map dict_items coins) of
             Some ds \<Rightarrow>
               if \<forall>c \<in> set shown_columns. \<exists>d \<in> set ds. map_of d c \<noteq> None
               then Inr (map (\<lambda>d. map (map_of d) shown_columns) ds)
               else Inl KeyError
           | None \<Rightarrow> Inl LibraryError)
      | _ \<Rightarrow> Inl LibraryError)"

text \<open>
  The call of \<^verbatim>\<open>get_coins_list\<close> from \<^verbatim>\<open>main\<close>: the call is logged, then what
  the function printed or showed.
\<close>

definition call_get_coins_list :: "upstream \<Rightarrow> json py" where
  "call_get_coins_list up =
     (\<lambda>evs. case get_coins_list (markets up) of
               (coins_data, shown) \<Rightarrow> (evs @ [Call_get_coins_list] @ shown, Inr coins_data))"

text \<open>
  The global view. Inside \<^verbatim>\<open>if global_stats:\<close> the three values are read from the
  nested dictionaries, then the three metrics are formatted and shown one after the
  other. The table of the coins follows in either case.
\<close>

definition metrics_panel :: "lib \<Rightarrow> json \<Rightarrow> unit py" where
  "metrics_panel L global_stats =
     seq (lift (bnd (getitem global_stats ''total_market_cap'') (\<lambda>d. getitem d ''eur''))) (\<lambda>total_mcap.
     seq (lift (bnd (getitem global_stats ''total_volume'') (\<lambda>d. getitem d ''eur''))) (\<lambda>total_vol.
     seq (lift (bnd (getitem global_stats ''market_cap_percentage'') (\<lambda>d. getitem d ''btc''))) (\<lambda>btc_percentage.
     seq (emit (Columns 3)) (\<lambda>_.
     seq (lift (format_big_number L total_mcap)) (\<lambda>mcap_text.
     seq (emit (Metric ''Market Cap'' mcap_text None)) (\<lambda>_.
     seq (lift (format_big_number L total_vol)) (\<lambda>vol_text.
     seq (emit (Metric ''Volume (24h)'' vol_text None)) (\<lambda>_.
     seq (lift (format_spec_f 1 btc_percentage)) (\<lambda>btc_text.
     emit (Metric ''BTC Dominance'' (btc_text @ '' %'') None))))))))))"

definition global_view :: "lib \<Rightarrow> upstream \<Rightarrow> json \<Rightarrow> unit py" where
  "global_view L up coins_data =
     seq (emit (Title ''Global Crypto Market'')) (\<lambda>_.
     seq (emit Call_get_global_data) (\<lambda>_.
     seq (ret (get_global_data (global_resp up))) (\<lambda>global_stats.
     seq (if truthy global_stats then metrics_panel L global_stats else ret ()) (\<lambda>_.
     seq (emit (Write ''---'')) (\<lambda>_.
     seq (emit (Subheader ''Top 100 Rankings'')) (\<lambda>_.
     seq (lift (simple_df coins_data)) (\<lambda>df.
     emit_checked (st_reject_table L df) (Dataframe df))))))))"

text \<open>
  The detail view. \<^verbatim>\<open>charts\<close> is the part after the history request: the test
  \<^verbatim>\<open>df_price is not None\<close> looks at the first component only, and the two other
  frames are subscripted without a test. \<^verbatim>\<open>coin_detail\<close> is the body of
  \<^verbatim>\<open>if selected_coin:\<close>, and \<^verbatim>\<open>detail_view\<close> the \<^verbatim>\<open>else\<close> branch of
  \<^verbatim>\<open>main\<close>, which starts with the search for the selected coin.
\<close>

definition charts :: "lib \<Rightarrow> frame option \<times> frame option \<times> frame option \<Rightarrow> unit py" where
  "charts L history =
     (case history of (df_price, df_cap, df_vol) \<Rightarrow>
        (case df_price of
           Some prices \<Rightarrow>
             seq (emit (Tabs [''Price Chart'', ''Volume & Cap''])) (\<lambda>_.
             seq (emit_checked (st_reject_chart L prices) (LineChart prices)) (\<lambda>_.
             seq (lift (case df_vol of None \<Rightarrow> Inl TypeError | Some v \<Rightarrow> Inr v)) (\<lambda>volumes.
             seq (emit_checked (st_reject_chart L volumes) (BarChart volumes)) (\<lambda>_.
             seq (lift (case df_cap of None \<Rightarrow> Inl TypeError | Some c \<Rightarrow> Inr c)) (\<lambda>caps.
             emit_checked (st_reject_chart L caps) (AreaChart caps))))))
         | None \<Rightarrow>
             emit (Warning ''Could not load chart data. API limit might be reached.'')))"

definition coin_detail :: "lib \<Rightarrow> upstream \<Rightarrow> json \<Rightarrow> int \<Rightarrow> unit py" where
  "coin_detail L up selected_coin days =
     seq (lift (getitem selected_coin ''name'')) (\<lambda>name.
     seq (lift (bnd (getitem selected_coin ''symbol'') (upper L))) (\<lambda>symbol.
     seq (emit (Title (fstr L name @ '' ('' @ symbol @ '')''))) (\<lambda>_.
     seq (lift (getitem selected_coin ''image'')) (\<lambda>image.
     seq (emit_checked (st_reject_image L image) (Image image 64)) (\<lambda>_.
     seq (lift (getitem selected_coin ''current_price'')) (\<lambda>price.
     seq (lift (getitem selected_coin ''price_change_percentage_24h'')) (\<lambda>change.
     seq (lift (getitem selected_coin ''high_24h'')) (\<lambda>high.
     seq (emit (Columns 3)) (\<lambda>_.
     seq (emit (Metric ''Current Price'' (euro @ '' '' @ fstr L price) None)) (\<lambda>_.
     seq (emit_checked (st_reject_delta L change)
            (Metric ''24h Change'' (fstr L change @ '' %'') (Some change))) (\<lambda>_.
     seq (emit (Metric ''24h High'' (euro @ '' '' @ fstr L high) None)) (\<lambda>_.
     seq (emit (Write ''---'')) (\<lambda>_.
     seq (emit (Subheader (''History ('' @ show_int days @ '' Days)''))) (\<lambda>_.
     seq (lift (getitem selected_coin ''id'')) (\<lambda>coin_id.
     seq (emit (Call_get_coin_history coin_id days)) (\<lambda>_.
     charts L (get_coin_history L (market_chart up coin_id days))))))))))))))))))"

definition detail_view :: "lib \<Rightarrow> upstream \<Rightarrow> json \<Rightarrow> string \<Rightarrow> int \<Rightarrow> unit py" where
  "detail_view L up coins_data selection days =
     seq (lift (bnd (py_iter coins_data) (\<lambda>coins. find_coin coins selection))) (\<lambda>selected_coin.
     if truthy selected_coin then coin_detail L up selected_coin days else ret ())"

text \<open>
  \<^verbatim>\<open>main\<close>, with \<open>selection\<close> and \<open>days_option\<close> the values that the selectbox
  and the radio widget return. The \<^verbatim>\<open>return\<close> after the warning ends the pass.
\<close>

definition main_body :: "lib \<Rightarrow> upstream \<Rightarrow> string \<Rightarrow> string \<Rightarrow> unit py" where
  "main_body L up selection days_option =
     seq (emit (SidebarTitle ''Navigation'')) (\<lambda>_.
     seq (emit (SidebarInfo ''Developed by Bassel Abdelmottaleb for HBKU application.'')) (\<lambda>_.
     seq (call_get_coins_list up) (\<lambda>coins_data.
     seq (lift (len_is_zero coins_data)) (\<lambda>empty.
     if empty then emit (Warning ''Could not load data. Please refresh later.'')
     else
       seq (lift (bnd (py_iter coins_data) (\<lambda>coins.
              coin_names_loop coins [JStr ''Global Overview'']))) (\<lambda>coin_names.
       seq (emit (Selectbox ''Choose View'' coin_names)) (\<lambda>_.
       seq (emit (SidebarWrite ''---'')) (\<lambda>_.
       seq (emit (Radio ''Timeframe'' [''7 Days'', ''30 Days'', ''90 Days''])) (\<lambda>_.
       if selection = ''Global Overview'' then global_view L up coins_data
       else detail_view L up coins_data selection (days_int days_option)))))))))"

text \<open>
  A render pass: \<^verbatim>\<open>main\<close> run from an empty page. The result is what was rendered and
  called, and the exception that ended the pass, if any.
\<close>

definition main :: "lib \<Rightarrow> upstream \<Rightarrow> string \<Rightarrow> string \<Rightarrow> event list \<times> (pyerr + unit)" where
  "main L up selection days_option = main_body L up selection days_option []"

section \<open>Notions used in the statements\<close>

text \<open>
  Timestamps that increase strictly, and the shape that a successful history result
  would have if the three series were validated against each other: equal length, not
  empty, increasing in time.
\<close>

definition strictly_increasing :: "int option list \<Rightarrow> bool" where
  "strictly_increasing ts =
     sorted_wrt (\<lambda>a b. case (a, b) of (Some x, Some y) \<Rightarrow> x < y | _ \<Rightarrow> False) ts"

definition equal_nonzero_increasing :: "frame \<Rightarrow> frame \<Rightarrow> frame \<Rightarrow> bool" where
  "equal_nonzero_increasing p c v =
     (length p = length c \<and> length c = length v \<and> p \<noteq> [] \<and>
      strictly_increasing (map fst p) \<and> strictly_increasing (map fst c) \<and>
      strictly_increasing (map fst v))"

text \<open>
  A rendering with two decimals ends with a point and two digits. The finite floats are
  those that are neither an infinity nor a NaN.
\<close>

definition is_digit :: "char \<Rightarrow> bool" where
  "is_digit c = (c \<in> set ''0123456789'')"

definition two_decimals :: "string \<Rightarrow> bool" where
  "two_decimals s =
     (case rev s of
        b # a # p # w \<Rightarrow> p = CHR ''.'' \<and> is_digit a \<and> is_digit b
      | _ \<Rightarrow> False)"

fun finite_float :: "pyfloat \<Rightarrow> bool" where
  "finite_float (Fin q) = True"
| "finite_float NegZero = True"
| "finite_float _ = False"

text \<open>
  Reading a rendering back. The integer part is what stands before the point, without
  the sign; the fraction is what follows the point; the number that the rendering
  denotes is the integer part, read in base ten without its separators, plus the
  fraction over the power of ten of its length, negated under a minus sign. An integer
  part is grouped in threes when the commas cut it into groups of digits, the first of
  one to three digits and the others of exactly three.
\<close>

definition digit_value :: "char \<Rightarrow> nat" where
  "digit_value c = length (takeWhile (\<lambda>d. d \<noteq> c) ''0123456789'')"

definition number_of :: "string \<Rightarrow> nat" where
  "number_of s = foldl (\<lambda>n c. 10 * n + digit_value c) 0 s"

definition integer_part :: "string \<Rightarrow> string" where
  "integer_part s = takeWhile (\<lambda>c. c \<noteq> CHR ''.'') (filter (\<lambda>c. c \<noteq> CHR ''-'') s)"

definition fraction_part :: "string \<Rightarrow> string" where
  "fraction_part s = drop 1 (dropWhile (\<lambda>c. c \<noteq> CHR ''.'') s)"

definition decimal_value :: "string \<Rightarrow> rat" where
  "decimal_value s =
     (let whole = filter (\<lambda>c. c \<noteq> CHR '','') (integer_part s);
          frac = fraction_part s;
          magnitude = of_nat (number_of whole) + of_nat (number_of frac) / 10 ^ length frac
      in if CHR ''-'' \<in> set s then - magnitude else magnitude)"

fun split_commas :: "string \<Rightarrow> string list" where
  "split_commas [] = [[]]"
| "split_commas (c # cs) =
     (if c = CHR '','' then [] # split_commas cs
      else (c # hd (split_commas cs)) # tl (split_commas cs))"

definition grouped_in_threes :: "string \<Rightarrow> bool" where
  "grouped_in_threes s =
     (let groups = split_commas s in
      hd groups \<noteq> [] \<and> length (hd groups) \<le> 3 \<and>
      list_all (\<lambda>g. length g = 3) (tl groups) \<and> list_all (list_all is_digit) groups)"

text \<open>
  The data-access calls of a log, and its charts. A computation preserves a property of
  events when everything it adds to a log has the property.
\<close>

fun is_data_call :: "event \<Rightarrow> bool" where
  "is_data_call Call_get_coins_list = True"
| "is_data_call Call_get_global_data = True"
| "is_data_call (Call_get_coin_history coin_id days) = True"
| "is_data_call _ = False"

fun is_chart :: "event \<Rightarrow> bool" where
  "is_chart (LineChart fr) = True"
| "is_chart (BarChart fr) = True"
| "is_chart (AreaChart fr) = True"
| "is_chart _ = False"

definition data_calls :: "event list \<Rightarrow> event list" where
  "data_calls evs = filter is_data_call evs"

definition rendered_charts :: "event list \<Rightarrow> event list" where
  "rendered_charts evs = filter is_chart evs"

definition preserves :: "(event \<Rightarrow> bool) \<Rightarrow> 'a py \<Rightarrow> bool" where
  "preserves P m = (\<forall>evs. list_all P evs \<longrightarrow> list_all P (fst (m evs)))"

text \<open>
  What a pass that shows the global view can render and call: the sidebar, the call for
  the coin list with what it prints or shows, the notice that no data could be loaded,
  the title \<^verbatim>\<open>"Global Crypto Market"\<close>, the call for the global statistics, the
  three metrics of the global view (which have no delta), the rule, the subheader
  \<^verbatim>\<open>"Top 100 Rankings"\<close> and the table. Everything that the detail view renders or
  calls is outside: a title with a coin's name, an image, the metrics of a coin, the
  history subheader, the history request, tabs, charts and the chart warning.
\<close>

fun global_pass_event :: "event \<Rightarrow> bool" where
  "global_pass_event (SidebarTitle s) = True"
| "global_pass_event (SidebarInfo s) = True"
| "global_pass_event StError = True"
| "global_pass_event (Print s) = True"
| "global_pass_event (Warning s) = (s = ''Could not load data. Please refresh later.'')"
| "global_pass_event (Selectbox label options) = True"
| "global_pass_event (SidebarWrite s) = True"
| "global_pass_event (Radio label options) = True"
| "global_pass_event (Title s) = (s = ''Global Crypto Market'')"
| "global_pass_event (Columns n) = True"
| "global_pass_event (Metric label text delta) =
     (label \<in> set [''Market Cap'', ''Volume (24h)'', ''BTC Dominance''] \<and> delta = None)"
| "global_pass_event (Write s) = True"
| "global_pass_event (Subheader s) = (s = ''Top 100 Rankings'')"
| "global_pass_event (Dataframe t) = True"
| "global_pass_event Call_get_coins_list = True"
| "global_pass_event Call_get_global_data = True"
| "global_pass_event _ = False"

text \<open>A computation extends the log: what was rendered stays, in its place.\<close>

definition extends :: "'a py \<Rightarrow> bool" where
  "extends m = (\<forall>evs. \<exists>rest. fst (m evs) = evs @ rest)"

text \<open>
  Responses with everything that \<^verbatim>\<open>main\<close> reads. The detail view reads the symbol
  (and upper-cases it), the image, the price, the change and the high of a coin before it
  requests the history, and hands the image and the change to the presentation layer; a
  coin has moreover a name, an id and a market capitalisation. An amount is what
  \<^verbatim>\<open>format_big_number\<close> and the \<^verbatim>\<open>.1f\<close> specification take without the help of
  \<^verbatim>\<open>float(str)\<close>: a float, a boolean, an integer that has a float, or (for
  \<^verbatim>\<open>format_big_number\<close> only) \<^verbatim>\<open>None\<close>. The global statistics have the three
  nested entries that the metrics panel reads.
\<close>

definition detail_fields_ok :: "lib \<Rightarrow> json \<Rightarrow> bool" where
  "detail_fields_ok L coin =
     ((case getitem coin ''symbol'' of Inr (JStr symbol) \<Rightarrow> True | _ \<Rightarrow> False) \<and>
      (case getitem coin ''image'' of Inr img \<Rightarrow> st_reject_image L img = None | _ \<Rightarrow> False) \<and>
      (case getitem coin ''current_price'' of Inr price \<Rightarrow> True | _ \<Rightarrow> False) \<and>
      (case getitem coin ''price_change_percentage_24h'' of
         Inr change \<Rightarrow> st_reject_delta L change = None | _ \<Rightarrow> False) \<and>
      (case getitem coin ''high_24h'' of Inr high \<Rightarrow> True | _ \<Rightarrow> False))"

definition coin_ok :: "lib \<Rightarrow> json \<Rightarrow> bool" where
  "coin_ok L coin =
     ((case getitem coin ''name'' of Inr v \<Rightarrow> True | Inl e \<Rightarrow> False) \<and>
      (case getitem coin ''id'' of Inr v \<Rightarrow> True | Inl e \<Rightarrow> False) \<and>
      (case getitem coin ''market_cap'' of Inr v \<Rightarrow> True | Inl e \<Rightarrow> False) \<and>
      detail_fields_ok L coin)"

fun amount_ok :: "json \<Rightarrow> bool" where
  "amount_ok JNull = True"
| "amount_ok (JFloat f) = True"
| "amount_ok (JBool b) = True"
| "amount_ok (JInt n) = (case float_of_int n of Inr f \<Rightarrow> True | Inl e \<Rightarrow> False)"
| "amount_ok _ = False"

definition global_stats_ok :: "json \<Rightarrow> bool" where
  "global_stats_ok global_stats =
     ((case bnd (getitem global_stats ''total_market_cap'') (\<lambda>d. getitem d ''eur'') of
         Inr v \<Rightarrow> amount_ok v | Inl e \<Rightarrow> False) \<and>
      (case bnd (getitem global_stats ''total_volume'') (\<lambda>d. getitem d ''eur'') of
         Inr v \<Rightarrow> amount_ok v | Inl e \<Rightarrow> False) \<and>
      (case bnd (getitem global_stats ''market_cap_percentage'') (\<lambda>d. getitem d ''btc'') of
         Inr v \<Rightarrow> v \<noteq> JNull \<and> amount_ok v | Inl e \<Rightarrow> False))"

definition accepts_tables_and_charts :: "lib \<Rightarrow> bool" where
  "accepts_tables_and_charts L =
     ((\<forall>t. st_reject_table L t = None) \<and> (\<forall>fr. st_reject_chart L fr = None))"

section \<open>Example inputs\<close>

text \<open>
  An instance of the library parameters, for running the model on examples: the
  presentation layer accepts every call, pandas and \<^verbatim>\<open>float\<close> refuse what is outside
  the modelled inputs, upper-casing is that of ASCII letters, and the text of a value
  that is neither a string nor an integer is a placeholder.
\<close>

definition ascii_upper :: "char \<Rightarrow> char" where
  "ascii_upper c =
     (case map_of (zip ''abcdefghijklmnopqrstuvwxyz'' ''ABCDEFGHIJKLMNOPQRSTUVWXYZ'') c of
        Some u \<Rightarrow> u | None \<Rightarrow> c)"

definition example_lib :: lib where
  "example_lib =
     \<lparr>float_of_str = (\<lambda>s. Inl ValueError),
      str_upper = map ascii_upper,
      format_value = (\<lambda>v. ''?''),
      frame_other = (\<lambda>d. Inl ValueError),
      st_reject_image = (\<lambda>x. None),
      st_reject_delta = (\<lambda>x. None),
      st_reject_table = (\<lambda>x. None),
      st_reject_chart = (\<lambda>x. None)\<rparr>"

text \<open>
  History responses: one whose price rows are not in time order and whose three arrays
  differ in length; one whose three arrays are empty; the body of a regular one; and a
  body whose prices mix an integer, a float and a null, whose market caps are empty and
  whose volumes have one row.
\<close>

definition unordered_history :: http_result where
  "unordered_history =
     Response 200 (Some (JObj
       [(''prices'', JArr [JArr [JInt 2000, JInt 50000], JArr [JInt 1000, JInt 49000]]),
        (''market_caps'', JArr [JArr [JInt 1000, JInt 900000]]),
        (''total_volumes'', JArr [JArr [JInt 1000, JInt 7000]])]))"

definition empty_history :: http_result where
  "empty_history =
     Response 200 (Some (JObj
       [(''prices'', JArr []), (''market_caps'', JArr []), (''total_volumes'', JArr [])]))"

definition mixed_history :: json where
  "mixed_history =
     JObj [(''prices'', JArr [JArr [JInt 1000, JInt 1], JArr [JInt 2000, JFloat (Fin (3 / 2))],
                              JArr [JInt 3000, JNull]]),
           (''market_caps'', JArr []),
           (''total_volumes'', JArr [JArr [JInt 1000, JInt 7000]])]"

definition rate_limited_history :: json where
  "rate_limited_history =
     JObj [(''prices'', JArr [JArr [JInt 1000, JInt 49000]]),
           (''market_caps'', JArr [JArr [JInt 1000, JInt 900000]]),
           (''total_volumes'', JArr [JArr [JInt 1000, JInt 7000]])]"

text \<open>
  Three coins, two of them of the same name and one named like the overview entry, and
  an upstream that lists them, answers the global statistics as given, and answers the
  history of \<^verbatim>\<open>bitcoin\<close> over 30 days as given and any other history with a 404.
\<close>

definition bitcoin :: json where
  "bitcoin =
     JObj [(''id'', JStr ''bitcoin''), (''symbol'', JStr ''btc''), (''name'', JStr ''Bitcoin''),
           (''image'', JStr ''https://example.org/btc.png''), (''current_price'', JInt 50000),
           (''market_cap'', JInt 900000000000), (''high_24h'', JInt 51000),
           (''price_change_percentage_24h'', JFloat (Fin (- 5 / 2)))]"

definition bitcoin_fork :: json where
  "bitcoin_fork =
     JObj [(''id'', JStr ''bitcoin-fork''), (''symbol'', JStr ''btf''), (''name'', JStr ''Bitcoin''),
           (''image'', JStr ''https://example.org/btf.png''), (''current_price'', JInt 3),
           (''market_cap'', JInt 1000), (''high_24h'', JInt 4),
           (''price_change_percentage_24h'', JInt 1)]"

definition overview_coin :: json where
  "overview_coin =
     JObj [(''id'', JStr ''global-overview''), (''symbol'', JStr ''glo''),
           (''name'', JStr ''Global Overview''),
           (''image'', JStr ''https://example.org/glo.png''), (''current_price'', JInt 1),
           (''market_cap'', JInt 500), (''high_24h'', JInt 2),
           (''price_change_percentage_24h'', JInt 0)]"

definition sample_upstream :: "http_result \<Rightarrow> http_result \<Rightarrow> upstream" where
  "sample_upstream global_response bitcoin_30_days =
     \<lparr>markets = Response 200 (Some (JArr [overview_coin, bitcoin, bitcoin_fork])),
      global_resp = global_response,
      market_chart = (\<lambda>coin_id days.
        if coin_id = JStr ''bitcoin'' \<and> days = 30 then bitcoin_30_days else Response 404 None)\<rparr>"

text \<open>
  A coin named Bitcoin that has no other field than its id, and an upstream that lists
  it before the full one.
\<close>

definition bitcoin_stub :: json where
  "bitcoin_stub = JObj [(''id'', JStr ''bitcoin-stub''), (''name'', JStr ''Bitcoin'')]"

definition stub_upstream :: upstream where
  "stub_upstream =
     \<lparr>markets = Response 200 (Some (JArr [bitcoin_stub, bitcoin])),
      global_resp = TransportFailure,
      market_chart = (\<lambda>coin_id days. TransportFailure)\<rparr>"

text \<open>
  Global statistics as the API sends them, the same without \<^verbatim>\<open>'total_market_cap'\<close>,
  and an upstream that cannot be reached.
\<close>

definition sample_global :: http_result where
  "sample_global =
     Response 200 (Some (JObj [(''data'', JObj
       [(''total_market_cap'', JObj [(''eur'', JInt 2500000000)]),
        (''total_volume'', JObj [(''eur'', JInt 1200000)]),
        (''market_cap_percentage'', JObj [(''btc'', JFloat (Fin (5 / 2)))])])]))"

definition missing_cap_global :: http_result where
  "missing_cap_global =
     Response 200 (Some (JObj [(''data'', JObj
       [(''total_volume'', JObj [(''eur'', JInt 1200000)]),
        (''market_cap_percentage'', JObj [(''btc'', JFloat (Fin (5 / 2)))])])]))"

definition offline_upstream :: upstream where
  "offline_upstream =
     \<lparr>markets = TransportFailure, global_resp = TransportFailure,
      market_chart = (\<lambda>coin_id days. TransportFailure)\<rparr>"

section \<open>Properties of the Number Formatter\<close>

lemma is_digit_digit: "d < 10 \<Longrightarrow> is_digit (digit d)"
  unfolding digit_def is_digit_def by (rule nth_mem) simp

lemma dec_two_digits:
  assumes "n < 100"
  shows "replicate (2 - length (dec n)) (CHR ''0'') @ dec n = [digit (n div 10), digit (n mod 10)]"
proof (cases "n < 10")
  case True
  then show ?thesis by (simp add: dec.simps [of n] digit_def)
next
  case False
  with assms have "n div 10 < 10" by simp
  with False show ?thesis by (simp add: dec.simps [of n] dec.simps [of "n div 10"])
qed

lemma fixed_shape:
  "\<exists>w a b. fixed 2 g x = w @ [CHR ''.'', a, b] \<and> is_digit a \<and> is_digit b"
proof -
  define N where "N = nat (round_half_even (x * 100))"
  have lt: "N mod 100 < 100" by simp
  have d1: "is_digit (digit (N mod 100 div 10))"
    by (rule is_digit_digit) (simp add: less_mult_imp_div_less)
  have d2: "is_digit (digit (N mod 100 mod 10))"
    by (rule is_digit_digit) simp
  have "fixed 2 g x = (if g then group3 (dec (N div 100)) else dec (N div 100)) @
          [CHR ''.'', digit (N mod 100 div 10), digit (N mod 100 mod 10)]"
    using dec_two_digits [OF lt] by (simp add: fixed_def Let_def N_def)
  with d1 d2 show ?thesis by blast
qed

lemma two_decimals_append: "is_digit a \<Longrightarrow> is_digit b \<Longrightarrow> two_decimals (w @ [CHR ''.'', a, b])"
  by (simp add: two_decimals_def)

lemma two_decimals_format_f:
  assumes "finite_float f"
  shows "two_decimals (format_f 2 g f)"
proof -
  have sign: "two_decimals (s @ fixed 2 g x)" for s x
  proof -
    obtain w a b where "fixed 2 g x = w @ [CHR ''.'', a, b]" "is_digit a" "is_digit b"
      using fixed_shape by blast
    then show ?thesis using two_decimals_append [of a b "s @ w"] by simp
  qed
  from assms show ?thesis
  proof (cases f)
    case (Fin q)
    then show ?thesis using sign [of "if q < 0 then ''-'' else []" "\<bar>q\<bar>"] by simp
  next
    case NegZero
    then show ?thesis using sign [of "''-''" 0] by simp
  qed simp_all
qed

lemma float_ge_mono: "float_ge v a \<Longrightarrow> b \<le> a \<Longrightarrow> float_ge v b"
  by (cases v) auto

lemma floor_rat_numeral: "\<lfloor>numeral a / numeral b :: rat\<rfloor> = numeral a div numeral b"
  using floor_divide_of_int_eq [of "numeral a" "numeral b", where ?'a = rat] by simp

lemma ceiling_rat_numeral: "\<lceil>numeral a / numeral b :: rat\<rceil> = - (- numeral a div numeral b)"
  using floor_divide_of_int_eq [of "- numeral a" "numeral b", where ?'a = rat]
  by (simp add: ceiling_def)

lemma ilog2_examples:
  "ilog2 2500000000 = 31" "ilog2 1200000 = 20" "ilog2 123456 = 16" "ilog2 999 = 9"
  "ilog2 (5 / 2) = 1" "ilog2 (6 / 5) = 0" "ilog2 1 = 0"
  by (simp_all add: ilog2_def bit_length.simps floor_rat_numeral)

lemma round_double_examples:
  "round_double 2500000000 = Fin 2500000000"
  "round_double 1200000 = Fin 1200000"
  "round_double 123456 = Fin 123456"
  "round_double 999 = Fin 999"
  "round_double (5 / 2) = Fin (5 / 2)"
  "round_double (6 / 5) = Fin (5404319552844595 / 4503599627370496)"
  "round_double 1 = Fin 1"
  by (simp_all add: round_double_def Let_def ilog2_examples)
     (simp_all add: pow2_def round_half_even_def Let_def floor_rat_numeral)

lemma float_of_int_examples:
  "float_of_int 2500000000 = Inr (Fin 2500000000)"
  "float_of_int 1200000 = Inr (Fin 1200000)"
  "float_of_int 123456 = Inr (Fin 123456)"
  "float_of_int 999 = Inr (Fin 999)"
  by (simp_all add: float_of_int_def round_double_examples)

lemma float_div_examples:
  "float_div (Fin 2500000000) 1000000000 = Fin (5 / 2)"
  "float_div (Fin 1200000) 1000000 = Fin (5404319552844595 / 4503599627370496)"
  by (simp_all add: round_double_examples)

lemma dec_examples:
  "dec 0 = ''0''" "dec 1 = ''1''" "dec (Suc 0) = ''1''" "dec 2 = ''2''" "dec 5 = ''5''"
  "dec 7 = ''7''" "dec 20 = ''20''" "dec 50 = ''50''" "dec 50000 = ''50000''" "dec 51000 = ''51000''"
  "dec 999 = ''999''" "dec 123456 = ''123456''"
  by (simp_all add: dec.simps digit_def)

lemma group3_examples:
  "group3 ''999'' = ''999''" "group3 ''2'' = ''2''" "group3 ''123456'' = ''123,456''"
  by (simp_all add: group3.simps)

lemma fixed_examples:
  "fixed 2 False (5 / 2) = ''2.50''"
  "fixed 2 False (5404319552844595 / 4503599627370496) = ''1.20''"
  "fixed 2 True 999 = ''999.00''"
  "fixed 2 True 123456 = ''123,456.00''"
  "fixed 2 True (5 / 2) = ''2.50''"
  "fixed (Suc 0) False (5 / 2) = ''2.5''"
  by (simp_all add: fixed_def round_half_even_def Let_def floor_rat_numeral)
     (simp_all add: dec_examples group3_examples)

lemma reading_examples:
  "decimal_value ''123,456.00'' = 123456"
  "decimal_value ''-1,234.56'' = - (30864 / 25)"
  "decimal_value ''2.50'' = 5 / 2"
  "integer_part ''-1,234.56'' = ''1,234''"
  "grouped_in_threes ''1,234''"
  "grouped_in_threes ''999''"
  "\<not> grouped_in_threes ''12,34''"
  "\<not> grouped_in_threes ''1234''"
  "\<not> grouped_in_threes '',234''"
  by (simp_all add: decimal_value_def integer_part_def fraction_part_def number_of_def
      digit_value_def grouped_in_threes_def is_digit_def)

lemma digit_value_digit: "d < 10 \<Longrightarrow> digit_value (digit d) = d"
proof -
  assume "d < 10"
  then have "d \<in> {0, 1, 2, 3, 4, 5, 6, 7, 8, 9}" by auto
  then show ?thesis by (auto simp: digit_value_def digit_def)
qed

lemma is_digit_not_separator:
  "is_digit c \<Longrightarrow> c \<noteq> CHR '','' \<and> c \<noteq> CHR ''.'' \<and> c \<noteq> CHR ''-''"
  by (auto simp: is_digit_def)

lemma dec_digits: "list_all is_digit (dec n)"
proof (induction n rule: dec.induct)
  case (1 n)
  show ?case
  proof (cases "n < 10")
    case True
    then show ?thesis by (simp add: dec.simps [of n] is_digit_digit)
  next
    case False
    with 1 show ?thesis by (simp add: dec.simps [of n] is_digit_digit)
  qed
qed

lemma dec_nonempty: "dec n \<noteq> []"
  by (simp add: dec.simps [of n])

lemma number_of_dec: "number_of (dec n) = n"
proof (induction n rule: dec.induct)
  case (1 n)
  show ?case
  proof (cases "n < 10")
    case True
    then show ?thesis by (simp add: dec.simps [of n] number_of_def digit_value_digit)
  next
    case False
    with 1 have "number_of (dec (n div 10)) = n div 10" by simp
    with False show ?thesis
      by (simp add: dec.simps [of n] number_of_def digit_value_digit)
  qed
qed

lemma group3_filter:
  "filter (\<lambda>c. c \<noteq> CHR '','') (group3 s) = filter (\<lambda>c. c \<noteq> CHR '','') s"
proof (induction s rule: group3.induct)
  case (1 s)
  show ?case
  proof (cases "length s \<le> 3")
    case True
    then show ?thesis by (simp add: group3.simps [of s])
  next
    case False
    with 1 have "filter (\<lambda>c. c \<noteq> CHR '','') (group3 (take (length s - 3) s)) =
       filter (\<lambda>c. c \<noteq> CHR '','') (take (length s - 3) s)" by simp
    with False have "filter (\<lambda>c. c \<noteq> CHR '','') (group3 s) =
       filter (\<lambda>c. c \<noteq> CHR '','') (take (length s - 3) s) @
       filter (\<lambda>c. c \<noteq> CHR '','') (drop (length s - 3) s)"
      by (simp add: group3.simps [of s])
    also have "\<dots> = filter (\<lambda>c. c \<noteq> CHR '','') (take (length s - 3) s @ drop (length s - 3) s)"
      by (simp only: filter_append)
    finally show ?thesis by (simp only: append_take_drop_id)
  qed
qed

lemma split_commas_nonempty: "split_commas s \<noteq> []"
  by (cases s) simp_all

lemma split_commas_plain: "CHR '','' \<notin> set s \<Longrightarrow> split_commas s = [s]"
  by (induction s) auto

lemma split_commas_append:
  "CHR '','' \<notin> set t \<Longrightarrow> split_commas (s @ CHR '','' # t) = split_commas s @ [t]"
proof (induction s)
  case Nil
  then show ?case by (simp add: split_commas_plain)
next
  case (Cons c s)
  then show ?case using split_commas_nonempty [of s] by (cases "split_commas s") auto
qed

lemma digits_no_comma: "list_all is_digit s \<Longrightarrow> CHR '','' \<notin> set s"
  using is_digit_not_separator by (auto simp: list_all_iff)

lemma grouped_group3:
  "list_all is_digit s \<Longrightarrow> s \<noteq> [] \<Longrightarrow> grouped_in_threes (group3 s)"
proof (induction s rule: group3.induct)
  case (1 s)
  show ?case
  proof (cases "length s \<le> 3")
    case True
    with 1(2,3) show ?thesis
      by (simp add: group3.simps [of s] grouped_in_threes_def split_commas_plain digits_no_comma)
  next
    case False
    let ?k = "length s - 3"
    from False have k: "take ?k s \<noteq> []" "length (drop ?k s) = 3" by auto
    from 1(2) have d: "list_all is_digit (take ?k s)" "list_all is_digit (drop ?k s)"
      by (auto simp: list_all_iff dest: in_set_takeD in_set_dropD)
    from 1(1) False d k have ih: "grouped_in_threes (group3 (take ?k s))" by simp
    have "split_commas (group3 s) = split_commas (group3 (take ?k s)) @ [drop ?k s]"
      using False d(2) by (simp add: group3.simps [of s] split_commas_append digits_no_comma)
    with ih k(2) d(2) split_commas_nonempty [of "group3 (take ?k s)"] show ?thesis
      by (cases "split_commas (group3 (take ?k s))") (auto simp: grouped_in_threes_def)
  qed
qed

lemma group3_chars: "set (group3 s) \<subseteq> insert (CHR '','') (set s)"
proof (induction s rule: group3.induct)
  case (1 s)
  show ?case
  proof (cases "length s \<le> 3")
    case True
    then show ?thesis by (auto simp: group3.simps [of s])
  next
    case False
    with 1 have "set (group3 (take (length s - 3) s)) \<subseteq> insert (CHR '','') (set s)"
      by (auto dest: in_set_takeD)
    with False show ?thesis by (auto simp: group3.simps [of s] dest: in_set_dropD)
  qed
qed

lemma round_half_even_near: "\<bar>of_int (round_half_even x) - x\<bar> \<le> 1 / 2"
proof -
  have "of_int \<lfloor>x\<rfloor> \<le> x" "x < of_int \<lfloor>x\<rfloor> + 1" by linarith+
  then show ?thesis by (auto simp: round_half_even_def Let_def)
qed

lemma round_half_even_nonneg: "0 \<le> x \<Longrightarrow> 0 \<le> round_half_even x"
  by (auto simp: round_half_even_def Let_def)


lemma fixed_two:
  assumes "N = nat (round_half_even (x * 100))"
  shows "fixed 2 g x = (if g then group3 (dec (N div 100)) else dec (N div 100)) @
           [CHR ''.'', digit (N mod 100 div 10), digit (N mod 100 mod 10)]"
proof -
  have lt: "N mod 100 < 100" by simp
  show ?thesis using dec_two_digits [OF lt] by (simp add: fixed_def Let_def assms)
qed

lemma whole_chars:
  assumes "w = (if g then group3 (dec n) else dec n)"
  shows "CHR ''.'' \<notin> set w" "CHR ''-'' \<notin> set w" "filter (\<lambda>c. c \<noteq> CHR '','') w = dec n"
proof -
  have d: "\<forall>c \<in> set (dec n). is_digit c" using dec_digits [of n] by (simp add: list_all_iff)
  have sub: "set w \<subseteq> insert (CHR '','') (set (dec n))"
    using group3_chars [of "dec n"] by (auto simp: assms)
  from sub d show "CHR ''.'' \<notin> set w" using is_digit_not_separator by fastforce
  from sub d show "CHR ''-'' \<notin> set w" using is_digit_not_separator by fastforce
  have "filter (\<lambda>c. c \<noteq> CHR '','') (dec n) = dec n"
    using d is_digit_not_separator by (simp add: filter_id_conv)
  then show "filter (\<lambda>c. c \<noteq> CHR '','') w = dec n" by (simp add: assms group3_filter)
qed

lemma rendering_parts:
  assumes "w = (if g then group3 (dec n) else dec n)" "is_digit a" "is_digit b"
    and "sign = [] \<or> sign = ''-''"
  shows "integer_part (sign @ w @ [CHR ''.'', a, b]) = w"
    and "fraction_part (sign @ w @ [CHR ''.'', a, b]) = [a, b]"
    and "CHR ''-'' \<in> set (sign @ w @ [CHR ''.'', a, b]) \<longleftrightarrow> sign = ''-''"
proof -
  note w = whole_chars [OF assms(1)]
  have ab: "a \<noteq> CHR ''-''" "b \<noteq> CHR ''-''"
    using assms(2,3) is_digit_not_separator by auto
  have keep: "filter (\<lambda>c. c \<noteq> CHR ''-'') w = w"
    using w(2) by (simp add: filter_id_conv) metis
  have "filter (\<lambda>c. c \<noteq> CHR ''-'') (sign @ w @ [CHR ''.'', a, b]) = w @ [CHR ''.'', a, b]"
    using assms(4) ab keep by auto
  moreover have "takeWhile (\<lambda>c. c \<noteq> CHR ''.'') (w @ [CHR ''.'', a, b]) = w"
    using w(1) by (subst takeWhile_append2) auto
  ultimately show "integer_part (sign @ w @ [CHR ''.'', a, b]) = w"
    by (simp add: integer_part_def)
  have "dropWhile (\<lambda>c. c \<noteq> CHR ''.'') ((sign @ w) @ [CHR ''.'', a, b]) = [CHR ''.'', a, b]"
    using w(1) assms(4) by (subst dropWhile_append2) auto
  then show "fraction_part (sign @ w @ [CHR ''.'', a, b]) = [a, b]"
    by (simp add: fraction_part_def)
  show "CHR ''-'' \<in> set (sign @ w @ [CHR ''.'', a, b]) \<longleftrightarrow> sign = ''-''"
    using w(2) ab assms(4) by auto
qed

lemma format_f_finite:
  fixes q :: rat
  defines "N \<equiv> nat (round_half_even (\<bar>q\<bar> * 100))"
  shows "integer_part (format_f 2 g (Fin q)) = (if g then group3 (dec (N div 100)) else dec (N div 100))"
    and "decimal_value (format_f 2 g (Fin q)) = (if q < 0 then - 1 else 1) * of_nat N / 100"
proof -
  let ?w = "if g then group3 (dec (N div 100)) else dec (N div 100)"
  let ?a = "digit (N mod 100 div 10)" and ?b = "digit (N mod 100 mod 10)"
  let ?sign = "if q < 0 then ''-'' else []"
  have a: "is_digit ?a" by (rule is_digit_digit) (simp add: less_mult_imp_div_less)
  have b: "is_digit ?b" by (rule is_digit_digit) simp
  have s: "?sign = [] \<or> ?sign = ''-''" by simp
  have r: "format_f 2 g (Fin q) = ?sign @ ?w @ [CHR ''.'', ?a, ?b]"
    using fixed_two [of N "\<bar>q\<bar>" g] by (simp add: N_def)
  note parts = rendering_parts [OF refl a b s, of g "N div 100"]
  show "integer_part (format_f 2 g (Fin q)) = ?w"
    unfolding r by (rule parts(1))
  have whole: "number_of (filter (\<lambda>c. c \<noteq> CHR '','') ?w) = N div 100"
    using whole_chars(3) [OF refl, of g "N div 100"] by (simp add: number_of_dec)
  have frac: "number_of [?a, ?b] = N mod 100"
    by (simp add: number_of_def digit_value_digit less_mult_imp_div_less)
  have "(of_nat (N div 100) :: rat) + of_nat (N mod 100) / 100 = of_nat N / 100"
  proof -
    have "(of_nat N :: rat) = of_nat (100 * (N div 100) + N mod 100)" by simp
    also have "\<dots> = 100 * of_nat (N div 100) + of_nat (N mod 100)"
      by (simp only: of_nat_add of_nat_mult of_nat_numeral)
    finally show ?thesis by (simp add: field_simps)
  qed
  then show "decimal_value (format_f 2 g (Fin q)) = (if q < 0 then - 1 else 1) * of_nat N / 100"
    unfolding r decimal_value_def Let_def parts whole frac by simp
qed

lemma format_f_value:
  "decimal_value (format_f 2 g (Fin q)) =
     (if q < 0 then - 1 else 1) * of_int (round_half_even (\<bar>q\<bar> * 100)) / 100"
  "\<bar>decimal_value (format_f 2 g (Fin q)) - q\<bar> \<le> 1 / 200"
proof -
  let ?r = "round_half_even (\<bar>q\<bar> * 100)"
  have nn: "0 \<le> ?r" by (rule round_half_even_nonneg) simp
  then have n: "(of_nat (nat ?r) :: rat) = of_int ?r" by simp
  show v: "decimal_value (format_f 2 g (Fin q)) = (if q < 0 then - 1 else 1) * of_int ?r / 100"
    using format_f_finite(2) [of g q] by (simp only: n)
  have near: "\<bar>of_int ?r - \<bar>q\<bar> * 100\<bar> \<le> 1 / 2" by (rule round_half_even_near)
  define d where "d = of_int ?r - \<bar>q\<bar> * 100"
  define x where "x = decimal_value (format_f 2 g (Fin q))"
  have "x = (if q < 0 then - 1 else 1) * of_int ?r / 100"
    unfolding x_def by (rule v)
  then have "x - q = (if q < 0 then - d else d) / 100"
    unfolding d_def by (simp add: field_simps)
  then have "\<bar>x - q\<bar> = \<bar>d\<bar> / 100" by (simp only: abs_divide abs_minus abs_numeral if_distrib [of abs] if_cancel)
  with near have "\<bar>x - q\<bar> \<le> 1 / 200" by (simp add: d_def)
  then show "\<bar>decimal_value (format_f 2 g (Fin q)) - q\<bar> \<le> 1 / 200"
    unfolding x_def .
qed

lemma format_f_grouping:
  "grouped_in_threes (integer_part (format_f 2 True (Fin q)))"
  "integer_part (format_f 2 False (Fin q)) \<noteq> []"
  "list_all is_digit (integer_part (format_f 2 False (Fin q)))"
  using format_f_finite(1) [of True q] format_f_finite(1) [of False q]
  by (simp_all add: grouped_group3 dec_digits dec_nonempty)


lemma bit_length_upper: "n < 2 ^ bit_length n"
proof (induction n rule: bit_length.induct)
  case (1 n)
  show ?case
  proof (cases "n = 0")
    case True
    then show ?thesis by (simp add: bit_length.simps [of n])
  next
    case False
    with 1 have "n div 2 < 2 ^ bit_length (n div 2)" by simp
    then have "n < 2 * 2 ^ bit_length (n div 2)" by linarith
    with False show ?thesis by (simp add: bit_length.simps [of n])
  qed
qed

lemma bit_length_lower: "0 < n \<Longrightarrow> 2 ^ (bit_length n - 1) \<le> n"
proof (induction n rule: bit_length.induct)
  case (1 n)
  show ?case
  proof (cases "n div 2 = 0")
    case True
    with 1(2) have "n = 1" by linarith
    then show ?thesis by (simp add: bit_length.simps [of "Suc 0"] bit_length.simps [of 0])
  next
    case False
    with 1 have ih: "2 ^ (bit_length (n div 2) - 1) \<le> n div 2" by simp
    from False have pos: "0 < bit_length (n div 2)" by (simp add: bit_length.simps [of "n div 2"])
    have "bit_length n - 1 = Suc (bit_length (n div 2) - 1)"
      using 1(2) pos by (simp add: bit_length.simps [of n])
    then have "(2::nat) ^ (bit_length n - 1) = 2 * 2 ^ (bit_length (n div 2) - 1)" by simp
    also have "\<dots> \<le> 2 * (n div 2)" using ih by simp
    also have "\<dots> \<le> n" by simp
    finally show ?thesis .
  qed
qed

lemma round_half_even_floor: "\<lfloor>x\<rfloor> \<le> round_half_even x"
  by (simp add: round_half_even_def Let_def)

lemma float_of_int_overflow:
  assumes "2 ^ 1024 \<le> n"
  shows "float_of_int n = Inl OverflowError"
proof -
  define N where "N = nat n"
  define b where "b = bit_length N"
  from assms have n: "0 < n" "n = int N" by (simp_all add: N_def) 
  from assms have big: "2 ^ 1024 \<le> N" unfolding N_def
    by (metis nat_mono nat_numeral nat_power_eq zero_le_numeral)
  have "N < 2 ^ b" unfolding b_def by (rule bit_length_upper)
  with big have "(2::nat) ^ 1024 < 2 ^ b" by linarith
  then have b: "1024 < b" by (rule power_less_imp_less_exp [rotated]) simp
  from big have "0 < N" by (metis less_le_trans zero_less_numeral zero_less_power)
  then have low: "2 ^ (b - 1) \<le> N" unfolding b_def by (rule bit_length_lower)
  define k where "k = b - 53"
  have bk: "b - 1 = 52 + k" using b by (simp add: k_def)
  have a: "\<bar>of_int n :: rat\<bar> = of_nat N" using n by simp
  have il: "ilog2 (of_nat N) = int b - 1"
    using \<open>0 < N\<close> by (simp add: ilog2_def b_def)
  have e: "max (int b - 1) (- 1022) - 52 = int k" using b by (simp add: k_def)
  have ulp: "pow2 (int k) = 2 ^ k" by (simp add: pow2_def)
  define m where "m = round_half_even (of_nat N / 2 ^ k)"
  have split: "(2::rat) ^ (b - 1) = 2 ^ 52 * 2 ^ k" by (simp only: bk power_add)
  have "(2::rat) ^ 52 * 2 ^ k \<le> of_nat N"
  proof -
    have "(2::rat) ^ (b - 1) = of_nat (2 ^ (b - 1))" by (simp only: of_nat_power of_nat_numeral)
    also have "\<dots> \<le> of_nat N" using low by (simp only: of_nat_le_iff)
    finally show ?thesis by (simp only: split)
  qed
  then have "(2::rat) ^ 52 \<le> of_nat N / 2 ^ k" by (simp add: pos_le_divide_eq)
  then have "(2::int) ^ 52 \<le> \<lfloor>of_nat N / 2 ^ k :: rat\<rfloor>" by (simp add: le_floor_iff)
  then have m: "2 ^ 52 \<le> m" unfolding m_def using round_half_even_floor [of "of_nat N / 2 ^ k"]
    by linarith
  have "(2::rat) ^ 1024 \<le> 2 ^ (b - 1)" using b by (intro power_increasing) simp_all
  also have "\<dots> = 2 ^ 52 * 2 ^ k" by (rule split)
  also have "\<dots> \<le> of_int m * 2 ^ k"
  proof -
    from m have "(2::rat) ^ 52 \<le> of_int m" by (metis of_int_le_iff of_int_numeral of_int_power)
    then show ?thesis by (simp add: mult_right_mono)
  qed
  finally have r: "pow2 1024 \<le> of_int m * 2 ^ k" by (simp add: pow2_def)
  have "round_double (of_int n) = PosInf"
    using n(1) r unfolding round_double_def Let_def a il e ulp m_def [symmetric]
    by simp
  then show ?thesis by (simp add: float_of_int_def)
qed

text \<open>
  C3, as stated, fails: an infinity, which is what the JSON number \<^verbatim>\<open>1e999\<close>
  parses to, is at least \<open>10\<^sup>9\<close> and is rendered \<^verbatim>\<open>"\<euro> inf Mrd."\<close>, without
  decimals; and the integer \<open>2 ^ 1024\<close> has no float, so that \<^verbatim>\<open>float(number)\<close>
  raises OverflowError and nothing is returned.
\<close>

theorem format_big_number_not_two_decimals:
  "format_big_number example_lib (JFloat PosInf) = Inr (euro @ '' inf Mrd.'') \<and>
   \<not> two_decimals ''inf'' \<and>
   format_big_number example_lib (JInt (2 ^ 1024)) = Inl OverflowError"
proof -
  have "float_of_int (2 ^ 1024) = Inl OverflowError"
    by (rule float_of_int_overflow) (rule order_refl)
  then have "format_big_number example_lib (JInt (2 ^ 1024)) = Inl OverflowError"
    by (simp add: format_big_number_def bnd_def)
  moreover have "format_big_number example_lib (JFloat PosInf) = Inr (euro @ '' inf Mrd.'')"
    by (simp add: format_big_number_def bnd_def)
  moreover have "\<not> two_decimals ''inf''" by (simp add: two_decimals_def)
  ultimately show ?thesis by simp
qed

text \<open>
  C3, amended. \<^verbatim>\<open>format_big_number\<close> maps \<^verbatim>\<open>None\<close> to \<^verbatim>\<open>"N/A"\<close>. For any
  other input it raises what \<^verbatim>\<open>float(number)\<close> raises, which is OverflowError for
  an integer from \<open>2 ^ 1024\<close> on. Where \<^verbatim>\<open>float(number)\<close> returns \<open>val\<close>: from
  \<open>10\<^sup>9\<close> on the result is the euro sign, a space, the quotient by \<open>10\<^sup>9\<close> rendered with
  \<^verbatim>\<open>.2f\<close> and the suffix \<^verbatim>\<open>" Mrd."\<close>; from \<open>10\<^sup>6\<close> up to \<open>10\<^sup>9\<close> the same with
  \<open>10\<^sup>6\<close> and \<^verbatim>\<open>" Mio."\<close>; otherwise (below \<open>10\<^sup>6\<close>, or a NaN) the value itself
  rendered with \<^verbatim>\<open>,.2f\<close> and no suffix. The rendering of a finite float ends with a
  point and two digits; it denotes the hundredth nearest to the float (ties to the even
  hundredth), so within \<open>1/200\<close> of it; its integer part is grouped in threes by commas
  under \<^verbatim>\<open>,.2f\<close> and is a plain, non-empty string of digits under \<^verbatim>\<open>.2f\<close>. The
  infinities and NaN are rendered \<^verbatim>\<open>inf\<close>, \<^verbatim>\<open>-inf\<close> and \<^verbatim>\<open>nan\<close>, without
  decimals. \<open>2500000000\<close> gives \<^verbatim>\<open>"\<euro> 2.50 Mrd."\<close> and \<open>999\<close> gives
  \<^verbatim>\<open>"\<euro> 999.00"\<close>, the euro sign being its three UTF-8 bytes.
\<close>

theorem format_big_number_cases:
  "format_big_number L JNull = Inr ''N/A'' \<and>
   (number \<noteq> JNull \<and> to_float L number = Inl e \<longrightarrow> format_big_number L number = Inl e) \<and>
   (2 ^ 1024 \<le> n \<longrightarrow> format_big_number L (JInt n) = Inl OverflowError) \<and>
   (number \<noteq> JNull \<and> to_float L number = Inr val \<longrightarrow>
      (float_ge val 1000000000 \<longrightarrow>
         format_big_number L number =
           Inr (euro @ '' '' @ format_f 2 False (float_div val 1000000000) @ '' Mrd.'')) \<and>
      (float_ge val 1000000 \<and> \<not> float_ge val 1000000000 \<longrightarrow>
         format_big_number L number =
           Inr (euro @ '' '' @ format_f 2 False (float_div val 1000000) @ '' Mio.'')) \<and>
      (\<not> float_ge val 1000000 \<longrightarrow>
         format_big_number L number = Inr (euro @ '' '' @ format_f 2 True val))) \<and>
   (finite_float f \<longrightarrow> two_decimals (format_f 2 grouping f)) \<and>
   decimal_value (format_f 2 grouping (Fin q)) =
     (if q < 0 then - 1 else 1) * of_int (round_half_even (\<bar>q\<bar> * 100)) / 100 \<and>
   \<bar>decimal_value (format_f 2 grouping (Fin q)) - q\<bar> \<le> 1 / 200 \<and>
   grouped_in_threes (integer_part (format_f 2 True (Fin q))) \<and>
   integer_part (format_f 2 False (Fin q)) \<noteq> [] \<and>
   list_all is_digit (integer_part (format_f 2 False (Fin q))) \<and>
   format_f 2 grouping PosInf = ''inf'' \<and> format_f 2 grouping NegInf = ''-inf'' \<and>
   format_f 2 grouping NaN = ''nan'' \<and>
   format_big_number L (JInt 2500000000) = Inr (euro @ '' 2.50 Mrd.'') \<and>
   format_big_number L (JInt 999) = Inr (euro @ '' 999.00'')"
proof -
  have general:
    "number \<noteq> JNull \<and> to_float L number = Inr val \<longrightarrow>
      (float_ge val 1000000000 \<longrightarrow>
         format_big_number L number =
           Inr (euro @ '' '' @ format_f 2 False (float_div val 1000000000) @ '' Mrd.'')) \<and>
      (float_ge val 1000000 \<and> \<not> float_ge val 1000000000 \<longrightarrow>
         format_big_number L number =
           Inr (euro @ '' '' @ format_f 2 False (float_div val 1000000) @ '' Mio.'')) \<and>
      (\<not> float_ge val 1000000 \<longrightarrow>
         format_big_number L number = Inr (euro @ '' '' @ format_f 2 True val))"
    using float_ge_mono [of val 1000000000 1000000]
    by (auto simp: format_big_number_def bnd_def)
  have raises:
    "number \<noteq> JNull \<and> to_float L number = Inl e \<longrightarrow> format_big_number L number = Inl e"
    by (simp add: format_big_number_def bnd_def)
  have overflow: "2 ^ 1024 \<le> n \<longrightarrow> format_big_number L (JInt n) = Inl OverflowError"
  proof
    assume "2 ^ 1024 \<le> n"
    then have "float_of_int n = Inl OverflowError" by (rule float_of_int_overflow)
    then show "format_big_number L (JInt n) = Inl OverflowError"
      by (simp add: format_big_number_def bnd_def)
  qed
  have none: "format_big_number L JNull = Inr ''N/A''"
    by (simp add: format_big_number_def)
  have billions: "format_big_number L (JInt 2500000000) = Inr (euro @ '' 2.50 Mrd.'')"
    by (simp add: format_big_number_def bnd_def float_of_int_examples round_double_examples
        fixed_examples)
  have small: "format_big_number L (JInt 999) = Inr (euro @ '' 999.00'')"
    by (simp add: format_big_number_def bnd_def float_of_int_examples fixed_examples)
  have special: "format_f 2 grouping PosInf = ''inf''" "format_f 2 grouping NegInf = ''-inf''"
    "format_f 2 grouping NaN = ''nan''"
    by simp_all
  have decimals: "finite_float f \<longrightarrow> two_decimals (format_f 2 grouping f)"
    using two_decimals_format_f [of f grouping] by blast
  note denotes = format_f_value [of grouping q]
  note grouped = format_f_grouping [of q]
  show ?thesis
    by (intro conjI none raises overflow general decimals denotes grouped special billions small)
qed

theorem format_big_number_cases_witness:
  "format_big_number example_lib (JInt 1200000) = Inr (euro @ '' 1.20 Mio.'') \<and>
   format_big_number example_lib (JInt 123456) = Inr (euro @ '' 123,456.00'') \<and>
   format_big_number example_lib (JFloat (Fin (5 / 2) )) = Inr (euro @ '' 2.50'') \<and>
   format_big_number example_lib (JFloat (Fin 2500000000)) = Inr (euro @ '' 2.50 Mrd.'') \<and>
   format_big_number example_lib (JArr []) = Inl TypeError \<and>
   format_big_number example_lib (JInt (2 ^ 1024 + 1)) = Inl OverflowError \<and>
   two_decimals (format_f 2 True (Fin 123456))"
proof -
  have "format_big_number example_lib (JInt 1200000) = Inr (euro @ '' 1.20 Mio.'')"
    using format_big_number_cases
      [where L = example_lib and number = "JInt 1200000" and val = "Fin 1200000"]
    by (simp add: float_of_int_examples round_double_examples fixed_examples)
  moreover have
    "format_big_number example_lib (JInt 123456) = Inr (euro @ '' 123,456.00'')"
    using format_big_number_cases
      [where L = example_lib and number = "JInt 123456" and val = "Fin 123456"]
    by (simp add: float_of_int_examples fixed_examples)
  moreover have
    "format_big_number example_lib (JFloat (Fin (5 / 2))) = Inr (euro @ '' 2.50'')"
    using format_big_number_cases
      [where L = example_lib and number = "JFloat (Fin (5 / 2))" and val = "Fin (5 / 2)"]
    by (simp add: fixed_examples)
  moreover have
    "format_big_number example_lib (JFloat (Fin 2500000000)) = Inr (euro @ '' 2.50 Mrd.'')"
    using format_big_number_cases
      [where L = example_lib and number = "JFloat (Fin 2500000000)" and val = "Fin 2500000000"]
    by (simp add: round_double_examples fixed_examples)
  moreover have "format_big_number example_lib (JArr []) = Inl TypeError"
    using format_big_number_cases
      [where L = example_lib and number = "JArr []" and e = TypeError]
    by simp
  moreover have "format_big_number example_lib (JInt (2 ^ 1024 + 1)) = Inl OverflowError"
    using format_big_number_cases [where L = example_lib and n = "2 ^ 1024 + 1"]
    by simp
  moreover have "two_decimals (format_f 2 True (Fin 123456))"
    using format_big_number_cases [where f = "Fin 123456" and grouping = True] by simp
  ultimately show ?thesis by simp
qed

section \<open>Properties of the Market Data Client\<close>

lemma bnd_Inr: "bnd m f = Inr y \<longleftrightarrow> (\<exists>x. m = Inr x \<and> f x = Inr y)"
  by (cases m) (simp_all add: bnd_def)

lemma requests_get_Inr:
  "requests_get r = Inr sb \<longleftrightarrow> r = Response (fst sb) (snd sb)"
  by (cases r; cases sb) (auto simp: requests_get_def)

lemma response_json_Inr: "response_json body = Inr data \<longleftrightarrow> body = Some data"
  by (cases body) (simp_all add: response_json_def)

text \<open>
  C4. Whenever the request of \<^verbatim>\<open>get_coins_list\<close> fails in transport, or the status
  is not 200, or anything else raises inside the \<^verbatim>\<open>try\<close> block, the function
  returns the empty list; it has no other outcome than a returned value.
\<close>

theorem get_coins_list_failure_empty:
  "(r = TransportFailure \<or> (\<exists>body. r = Response status body \<and> status \<noteq> 200) \<or>
    (\<exists>e. get_coins_list_try r = Inl e))
   \<longrightarrow> fst (get_coins_list r) = JArr []"
  by (auto simp: get_coins_list_def get_coins_list_try_def requests_get_def bnd_def
      split: sum.splits)

theorem get_coins_list_failure_empty_witness:
  "fst (get_coins_list TransportFailure) = JArr [] \<and>
   fst (get_coins_list (Response 503 (Some (JStr ''unavailable'')))) = JArr [] \<and>
   fst (get_coins_list (Response 200 None)) = JArr []"
proof -
  have raised: "get_coins_list_try (Response 200 None) = Inl ValueError"
    by (simp add: get_coins_list_try_def requests_get_def response_json_def bnd_def)
  have "fst (get_coins_list TransportFailure) = JArr []"
    using get_coins_list_failure_empty [of TransportFailure 0] by simp
  moreover have "fst (get_coins_list (Response 503 (Some (JStr ''unavailable'')))) = JArr []"
    using get_coins_list_failure_empty [of "Response 503 (Some (JStr ''unavailable''))" 503]
    by simp
  moreover have "fst (get_coins_list (Response 200 None)) = JArr []"
    using get_coins_list_failure_empty [of "Response 200 None" 200] raised by simp
  ultimately show ?thesis by simp
qed

text \<open>
  C5. \<^verbatim>\<open>get_global_data\<close> returns \<^verbatim>\<open>None\<close> on a transport failure, on a status
  other than 200, on a body that is not JSON and on a body without the \<^verbatim>\<open>'data'\<close>
  key (or that is no dictionary); on status 200 with a \<^verbatim>\<open>'data'\<close> entry it returns
  that entry.
\<close>

theorem get_global_data_none_or_stats:
  "(r = TransportFailure \<longrightarrow> get_global_data r = JNull) \<and>
   (r = Response status body \<and> status \<noteq> 200 \<longrightarrow> get_global_data r = JNull) \<and>
   (r = Response 200 None \<longrightarrow> get_global_data r = JNull) \<and>
   (r = Response 200 (Some data) \<and> getitem data ''data'' = Inl e \<longrightarrow> get_global_data r = JNull) \<and>
   (r = Response 200 (Some data) \<and> getitem data ''data'' = Inr stats \<longrightarrow> get_global_data r = stats)"
  by (simp add: get_global_data_def get_global_data_try_def requests_get_def response_json_def
      bnd_def)

theorem get_global_data_none_or_stats_witness:
  "get_global_data TransportFailure = JNull \<and>
   get_global_data (Response 429 (Some (JObj [(''data'', JObj [(''markets'', JInt 900)])]))) = JNull \<and>
   get_global_data (Response 200 None) = JNull \<and>
   get_global_data (Response 200 (Some (JObj [(''status'', JStr ''error'')]))) = JNull \<and>
   get_global_data (Response 200 (Some (JObj [(''data'', JObj [(''markets'', JInt 900)])])))
     = JObj [(''markets'', JInt 900)]"
proof -
  have "get_global_data TransportFailure = JNull"
    using get_global_data_none_or_stats [of TransportFailure] by simp
  moreover have
    "get_global_data (Response 429 (Some (JObj [(''data'', JObj [(''markets'', JInt 900)])]))) = JNull"
    using get_global_data_none_or_stats
      [of "Response 429 (Some (JObj [(''data'', JObj [(''markets'', JInt 900)])]))" 429
          "Some (JObj [(''data'', JObj [(''markets'', JInt 900)])])"]
    by simp
  moreover have "get_global_data (Response 200 None) = JNull"
    using get_global_data_none_or_stats [of "Response 200 None"] by simp
  moreover have
    "get_global_data (Response 200 (Some (JObj [(''status'', JStr ''error'')]))) = JNull"
    using get_global_data_none_or_stats
      [of "Response 200 (Some (JObj [(''status'', JStr ''error'')]))" _ _
          "JObj [(''status'', JStr ''error'')]" KeyError]
    by simp
  moreover have
    "get_global_data (Response 200 (Some (JObj [(''data'', JObj [(''markets'', JInt 900)])])))
       = JObj [(''markets'', JInt 900)]"
    using get_global_data_none_or_stats
      [of "Response 200 (Some (JObj [(''data'', JObj [(''markets'', JInt 900)])]))" _ _
          "JObj [(''data'', JObj [(''markets'', JInt 900)])]" _ "JObj [(''markets'', JInt 900)]"]
    by simp
  ultimately show ?thesis by simp
qed

lemma those_length: "those xs = Some ys \<Longrightarrow> length ys = length xs"
  by (induction xs arbitrary: ys) (auto split: option.splits)

lemma get_coin_history_try_Inr:
  "get_coin_history_try L r = Inr (df_prices, df_caps, df_vol) \<longleftrightarrow>
     (\<exists>status data.
        r = Response status (Some data) \<and>
        bnd (getitem data ''prices'') (time_indexed L) = Inr df_prices \<and>
        bnd (getitem data ''market_caps'') (time_indexed L) = Inr df_caps \<and>
        bnd (getitem data ''total_volumes'') (time_indexed L) = Inr df_vol)"
proof (cases r)
  case TransportFailure
  then show ?thesis by (simp add: get_coin_history_try_def requests_get_def bnd_def)
next
  case (Response status body)
  show ?thesis
  proof (cases body)
    case None
    with Response show ?thesis
      by (simp add: get_coin_history_try_def requests_get_def response_json_def bnd_def)
  next
    case (Some data)
    have chain:
      "get_coin_history_try L (Response status (Some data)) =
         bnd (bnd (getitem data ''prices'') (time_indexed L)) (\<lambda>p.
         bnd (bnd (getitem data ''market_caps'') (time_indexed L)) (\<lambda>c.
         bnd (bnd (getitem data ''total_volumes'') (time_indexed L)) (\<lambda>v.
         Inr (p, c, v))))"
      by (simp add: get_coin_history_try_def requests_get_def response_json_def bnd_def
          split: sum.splits)
    show ?thesis
      unfolding Response Some chain
      by (cases "bnd (getitem data ''prices'') (time_indexed L)";
          cases "bnd (getitem data ''market_caps'') (time_indexed L)";
          cases "bnd (getitem data ''total_volumes'') (time_indexed L)")
         (simp_all add: bnd_def)
  qed
qed

lemma get_coin_history_cases:
  "get_coin_history L r = (None, None, None) \<or>
   (\<exists>p c v. get_coin_history L r = (Some p, Some c, Some v) \<and>
            get_coin_history_try L r = Inr (p, c, v))"
  by (cases "get_coin_history_try L r") (auto simp: get_coin_history_def)

lemma column_values_length: "column_values cells = Some values \<Longrightarrow> length values = length cells"
  by (auto simp: column_values_def those_length split: if_splits dest: those_length)

lemma time_indexed_rows:
  assumes "those (map ms_row rows) = Some pairs" "column_values (map snd pairs) = Some cells"
  shows "time_indexed L (JArr rows) = Inr (zip (time_index pairs) cells)"
    and "length (zip (time_index pairs) cells) = length rows"
    and "map fst (zip (time_index pairs) cells) = time_index pairs"
proof -
  show "time_indexed L (JArr rows) = Inr (zip (time_index pairs) cells)"
    using assms by (simp add: time_indexed_def)
  have l: "length pairs = length rows" "length cells = length pairs"
    using those_length [OF assms(1)] column_values_length [OF assms(2)] by simp_all
  then show "length (zip (time_index pairs) cells) = length rows"
    by (simp add: time_index_def)
  from l show "map fst (zip (time_index pairs) cells) = time_index pairs"
    by (simp add: time_index_def)
qed

lemma int64_examples:
  "int64 1" "int64 7000" "int64 49000" "int64 50000" "int64 900000"
  by (simp_all add: int64_def)

text \<open>
  C1, as stated, fails. On a body whose price rows are out of time order and whose
  arrays have different lengths, \<^verbatim>\<open>get_coin_history\<close> returns the three frames as they
  are, which are neither of equal length nor increasing in time; on a body whose three
  arrays are empty it returns three empty frames, which are not of non-zero length.
\<close>

theorem get_coin_history_unchecked:
  "get_coin_history example_lib unordered_history =
     (Some [(Some 2000000000, JInt 50000), (Some 1000000000, JInt 49000)],
      Some [(Some 1000000000, JInt 900000)],
      Some [(Some 1000000000, JInt 7000)]) \<and>
   \<not> equal_nonzero_increasing
       [(Some 2000000000, JInt 50000), (Some 1000000000, JInt 49000)]
       [(Some 1000000000, JInt 900000)]
       [(Some 1000000000, JInt 7000)] \<and>
   \<not> strictly_increasing [Some 2000000000, Some 1000000000] \<and>
   get_coin_history example_lib empty_history = (Some [], Some [], Some []) \<and>
   \<not> equal_nonzero_increasing [] [] []"
  by (simp add: get_coin_history_def get_coin_history_try_def requests_get_def
      response_json_def bnd_def unordered_history_def empty_history_def time_indexed_def
      column_values_def time_index_def int64_examples equal_nonzero_increasing_def
      strictly_increasing_def)

text \<open>
  C1, amended. \<^verbatim>\<open>get_coin_history\<close> returns either three frames or
  \<^verbatim>\<open>(None, None, None)\<close>, never a mix, and on success each frame is what the pandas
  calls build from the array of its own key. Neither the lengths nor the time order are
  checked: whatever the status, when each of the three arrays is a list, of any length
  and also empty, of rows \<^verbatim>\<open>[t, v]\<close> with \<open>t\<close> an integer number of milliseconds
  that a nanosecond timestamp can hold and with the values \<open>v\<close> making a numeric column
  (all integers of 64 bits, or integers of 64 bits, floats and nulls with a number among
  them), the function returns three frames; each has one row per element of its own
  array, its timestamps are those of the rows in the order of the body (in
  nanoseconds), and its values are those of the rows as the column holds them (as they
  are for a column of integers; otherwise as floats, NaN for a null).
\<close>

theorem get_coin_history_all_or_nothing:
  "(case get_coin_history L r of
      (Some df_prices, Some df_caps, Some df_vol) \<Rightarrow>
        (\<exists>status data.
           r = Response status (Some data) \<and>
           bnd (getitem data ''prices'') (time_indexed L) = Inr df_prices \<and>
           bnd (getitem data ''market_caps'') (time_indexed L) = Inr df_caps \<and>
           bnd (getitem data ''total_volumes'') (time_indexed L) = Inr df_vol)
    | (None, None, None) \<Rightarrow> True
    | _ \<Rightarrow> False) \<and>
   (getitem data ''prices'' = Inr (JArr ps) \<and> those (map ms_row ps) = Some prows \<and>
    column_values (map snd prows) = Some pcells \<and>
    getitem data ''market_caps'' = Inr (JArr cs) \<and> those (map ms_row cs) = Some crows \<and>
    column_values (map snd crows) = Some ccells \<and>
    getitem data ''total_volumes'' = Inr (JArr vs) \<and> those (map ms_row vs) = Some vrows \<and>
    column_values (map snd vrows) = Some vcells
    \<longrightarrow> get_coin_history L (Response status (Some data)) =
          (Some (zip (time_index prows) pcells), Some (zip (time_index crows) ccells),
           Some (zip (time_index vrows) vcells)) \<and>
        length (zip (time_index prows) pcells) = length ps \<and>
        length (zip (time_index crows) ccells) = length cs \<and>
        length (zip (time_index vrows) vcells) = length vs \<and>
        map fst (zip (time_index prows) pcells) = map (\<lambda>row. Some (fst row * 1000000)) prows \<and>
        map fst (zip (time_index crows) ccells) = map (\<lambda>row. Some (fst row * 1000000)) crows \<and>
        map fst (zip (time_index vrows) vcells) = map (\<lambda>row. Some (fst row * 1000000)) vrows)"
proof
  show "case get_coin_history L r of
      (Some df_prices, Some df_caps, Some df_vol) \<Rightarrow>
        (\<exists>status data.
           r = Response status (Some data) \<and>
           bnd (getitem data ''prices'') (time_indexed L) = Inr df_prices \<and>
           bnd (getitem data ''market_caps'') (time_indexed L) = Inr df_caps \<and>
           bnd (getitem data ''total_volumes'') (time_indexed L) = Inr df_vol)
    | (None, None, None) \<Rightarrow> True
    | _ \<Rightarrow> False"
  proof (cases "get_coin_history_try L r")
    case (Inl e)
    then show ?thesis by (simp add: get_coin_history_def)
  next
    case (Inr t)
    obtain p c v where t: "t = (p, c, v)" by (cases t) auto
    from Inr t have "get_coin_history_try L r = Inr (p, c, v)" by simp
    then show ?thesis
      using get_coin_history_try_Inr [of L r p c v] by (simp add: get_coin_history_def)
  qed
next
  show "getitem data ''prices'' = Inr (JArr ps) \<and> those (map ms_row ps) = Some prows \<and>
    column_values (map snd prows) = Some pcells \<and>
    getitem data ''market_caps'' = Inr (JArr cs) \<and> those (map ms_row cs) = Some crows \<and>
    column_values (map snd crows) = Some ccells \<and>
    getitem data ''total_volumes'' = Inr (JArr vs) \<and> those (map ms_row vs) = Some vrows \<and>
    column_values (map snd vrows) = Some vcells
    \<longrightarrow> get_coin_history L (Response status (Some data)) =
          (Some (zip (time_index prows) pcells), Some (zip (time_index crows) ccells),
           Some (zip (time_index vrows) vcells)) \<and>
        length (zip (time_index prows) pcells) = length ps \<and>
        length (zip (time_index crows) ccells) = length cs \<and>
        length (zip (time_index vrows) vcells) = length vs \<and>
        map fst (zip (time_index prows) pcells) = map (\<lambda>row. Some (fst row * 1000000)) prows \<and>
        map fst (zip (time_index crows) ccells) = map (\<lambda>row. Some (fst row * 1000000)) crows \<and>
        map fst (zip (time_index vrows) vcells) = map (\<lambda>row. Some (fst row * 1000000)) vrows"
  proof
    assume a: "getitem data ''prices'' = Inr (JArr ps) \<and> those (map ms_row ps) = Some prows \<and>
      column_values (map snd prows) = Some pcells \<and>
      getitem data ''market_caps'' = Inr (JArr cs) \<and> those (map ms_row cs) = Some crows \<and>
      column_values (map snd crows) = Some ccells \<and>
      getitem data ''total_volumes'' = Inr (JArr vs) \<and> those (map ms_row vs) = Some vrows \<and>
      column_values (map snd vrows) = Some vcells"
    from a have ap: "those (map ms_row ps) = Some prows" "column_values (map snd prows) = Some pcells"
      and ac: "those (map ms_row cs) = Some crows" "column_values (map snd crows) = Some ccells"
      and av: "those (map ms_row vs) = Some vrows" "column_values (map snd vrows) = Some vcells"
      by simp_all
    note p = time_indexed_rows [OF ap]
    note c = time_indexed_rows [OF ac]
    note v = time_indexed_rows [OF av]
    have "get_coin_history_try L (Response status (Some data)) =
        Inr (zip (time_index prows) pcells, zip (time_index crows) ccells,
             zip (time_index vrows) vcells)"
      using a p(1) c(1) v(1)
      by (simp add: get_coin_history_try_def requests_get_def response_json_def bnd_def)
    then have "get_coin_history L (Response status (Some data)) =
          (Some (zip (time_index prows) pcells), Some (zip (time_index crows) ccells),
           Some (zip (time_index vrows) vcells))"
      by (simp add: get_coin_history_def)
    moreover have "length (zip (time_index prows) pcells) = length ps"
      "length (zip (time_index crows) ccells) = length cs"
      "length (zip (time_index vrows) vcells) = length vs"
      using a p(2) c(2) v(2) by blast+
    moreover have
      "map fst (zip (time_index prows) pcells) = map (\<lambda>row. Some (fst row * 1000000)) prows"
      "map fst (zip (time_index crows) ccells) = map (\<lambda>row. Some (fst row * 1000000)) crows"
      "map fst (zip (time_index vrows) vcells) = map (\<lambda>row. Some (fst row * 1000000)) vrows"
      using a p(3) c(3) v(3) unfolding time_index_def by blast+
    ultimately show "get_coin_history L (Response status (Some data)) =
          (Some (zip (time_index prows) pcells), Some (zip (time_index crows) ccells),
           Some (zip (time_index vrows) vcells)) \<and>
        length (zip (time_index prows) pcells) = length ps \<and>
        length (zip (time_index crows) ccells) = length cs \<and>
        length (zip (time_index vrows) vcells) = length vs \<and>
        map fst (zip (time_index prows) pcells) = map (\<lambda>row. Some (fst row * 1000000)) prows \<and>
        map fst (zip (time_index crows) ccells) = map (\<lambda>row. Some (fst row * 1000000)) crows \<and>
        map fst (zip (time_index vrows) vcells) = map (\<lambda>row. Some (fst row * 1000000)) vrows"
      by simp
  qed
qed

theorem get_coin_history_all_or_nothing_witness:
  "get_coin_history example_lib (Response 429 (Some mixed_history)) =
     (Some [(Some 1000000000, JFloat (Fin 1)), (Some 2000000000, JFloat (Fin (3 / 2))),
            (Some 3000000000, JFloat NaN)],
      Some [],
      Some [(Some 1000000000, JInt 7000)])"
proof -
  have cells: "column_values [JInt 1, JFloat (Fin (3 / 2)), JNull] =
      Some [JFloat (Fin 1), JFloat (Fin (3 / 2)), JFloat NaN]"
    "column_values [] = Some []" "column_values [JInt 7000] = Some [JInt 7000]"
    by (simp_all add: column_values_def int64_examples round_double_examples)
  show ?thesis
    using get_coin_history_all_or_nothing
      [where L = example_lib and status = 429 and data = mixed_history
         and ps = "[JArr [JInt 1000, JInt 1], JArr [JInt 2000, JFloat (Fin (3 / 2))],
                    JArr [JInt 3000, JNull]]"
         and prows = "[(1000, JInt 1), (2000, JFloat (Fin (3 / 2))), (3000, JNull)]"
         and pcells = "[JFloat (Fin 1), JFloat (Fin (3 / 2)), JFloat NaN]"
         and cs = "[]" and crows = "[]" and ccells = "[]"
         and vs = "[JArr [JInt 1000, JInt 7000]]" and vrows = "[(1000, JInt 7000)]"
         and vcells = "[JInt 7000]"]
      cells
    by (simp add: mixed_history_def time_index_def)
qed

text \<open>
  C8. \<^verbatim>\<open>get_coin_history\<close> does not look at the status: whatever it is, a body whose
  three arrays are present and are turned into frames gives these frames, and a body
  where one of the three keys cannot be read gives \<^verbatim>\<open>(None, None, None)\<close>.
\<close>

theorem get_coin_history_ignores_status:
  "(getitem data ''prices'' = Inr ps \<and> time_indexed L ps = Inr df_prices \<and>
    getitem data ''market_caps'' = Inr cs \<and> time_indexed L cs = Inr df_caps \<and>
    getitem data ''total_volumes'' = Inr vs \<and> time_indexed L vs = Inr df_vol
    \<longrightarrow> get_coin_history L (Response status (Some data)) =
          (Some df_prices, Some df_caps, Some df_vol)) \<and>
   ((\<exists>e. getitem data ''prices'' = Inl e) \<or> (\<exists>e. getitem data ''market_caps'' = Inl e) \<or>
    (\<exists>e. getitem data ''total_volumes'' = Inl e)
    \<longrightarrow> get_coin_history L (Response status (Some data)) = (None, None, None))"
  by (auto simp: get_coin_history_def get_coin_history_try_def requests_get_def
      response_json_def bnd_def split: sum.splits)

theorem get_coin_history_ignores_status_witness:
  "get_coin_history example_lib (Response 429 (Some rate_limited_history)) =
     (Some [(Some 1000000000, JInt 49000)], Some [(Some 1000000000, JInt 900000)],
      Some [(Some 1000000000, JInt 7000)]) \<and>
   get_coin_history example_lib
     (Response 200 (Some (JObj [(''prices'', JArr []), (''market_caps'', JArr [])]))) =
     (None, None, None)"
proof -
  have "get_coin_history example_lib (Response 429 (Some rate_limited_history)) =
     (Some [(Some 1000000000, JInt 49000)], Some [(Some 1000000000, JInt 900000)],
      Some [(Some 1000000000, JInt 7000)])"
    using get_coin_history_ignores_status
      [where data = rate_limited_history and L = example_lib and status = 429
         and ps = "JArr [JArr [JInt 1000, JInt 49000]]"
         and cs = "JArr [JArr [JInt 1000, JInt 900000]]"
         and vs = "JArr [JArr [JInt 1000, JInt 7000]]"
         and df_prices = "[(Some 1000000000, JInt 49000)]"
         and df_caps = "[(Some 1000000000, JInt 900000)]"
         and df_vol = "[(Some 1000000000, JInt 7000)]"]
    by (simp add: rate_limited_history_def time_indexed_def column_values_def time_index_def
        int64_examples)
  moreover have "get_coin_history example_lib
     (Response 200 (Some (JObj [(''prices'', JArr []), (''market_caps'', JArr [])]))) =
     (None, None, None)"
    using get_coin_history_ignores_status
      [where data = "JObj [(''prices'', JArr []), (''market_caps'', JArr [])]"
         and L = example_lib and status = 200]
    by simp
  ultimately show ?thesis by simp
qed

section \<open>Properties of the View Controller\<close>

subsection \<open>Running a pass step by step\<close>

text \<open>
  Equations that execute the sequencing operator on its first step, so that a pass on
  given inputs unfolds into the log it leaves.
\<close>

lemma seq_ret [simp]: "seq (ret x) f evs = f x evs"
  by (simp add: seq_def ret_def)

lemma seq_emit [simp]: "seq (emit ev) f evs = f () (evs @ [ev])"
  by (simp add: seq_def emit_def)

lemma seq_lift_Inr [simp]: "seq (lift (Inr x)) f evs = f x evs"
  by (simp add: seq_def lift_def)

lemma seq_lift_Inl [simp]: "seq (lift (Inl e)) f evs = (evs, Inl e)"
  by (simp add: seq_def lift_def)

lemma seq_emit_checked_None [simp]: "seq (emit_checked None ev) f evs = f () (evs @ [ev])"
  by (simp add: seq_def emit_checked_def)

lemma seq_emit_checked_Some [simp]: "seq (emit_checked (Some e) ev) f evs = (evs, Inl e)"
  by (simp add: seq_def emit_checked_def)

lemma ret_apply [simp]: "ret x evs = (evs, Inr x)"
  by (simp add: ret_def)

lemma emit_apply [simp]: "emit ev evs = (evs @ [ev], Inr ())"
  by (simp add: emit_def)

lemma emit_checked_apply [simp]:
  "emit_checked None ev evs = (evs @ [ev], Inr ())"
  "emit_checked (Some e) ev evs = (evs, Inl e)"
  by (simp_all add: emit_checked_def)

lemma seq_call_get_coins_list:
  "get_coins_list (markets up) = (d, shown) \<Longrightarrow>
     seq (call_get_coins_list up) f evs = f d (evs @ [Call_get_coins_list] @ shown)"
  by (simp add: seq_def call_get_coins_list_def)

lemma seq_assoc [simp]: "seq (seq m f) g = seq m (\<lambda>x. seq (f x) g)"
  by (rule ext) (simp add: seq_def split: prod.splits sum.splits)

lemma bnd_simps [simp]: "bnd (Inr x) f = f x" "bnd (Inl e) f = Inl e"
  by (simp_all add: bnd_def)

subsection \<open>Events that a pass never produces\<close>

text \<open>
  A property of events that holds of everything a computation adds to the log is kept by
  sequencing, whatever the computation returns or raises.
\<close>

lemma preservesD: "preserves P m \<Longrightarrow> list_all P (fst (m []))"
  by (simp add: preserves_def)

lemma preserves_ret: "preserves P (ret x)"
  by (simp add: preserves_def ret_def)

lemma preserves_lift: "preserves P (lift r)"
  by (simp add: preserves_def lift_def)

lemma preserves_emit: "P ev \<Longrightarrow> preserves P (emit ev)"
  by (simp add: preserves_def emit_def)

lemma preserves_emit_checked: "P ev \<Longrightarrow> preserves P (emit_checked rejected ev)"
  by (cases rejected) (simp_all add: preserves_def emit_checked_def)

lemma preserves_seq:
  assumes "preserves P m" and "\<And>x. preserves P (f x)"
  shows "preserves P (seq m f)"
  unfolding preserves_def
proof (intro allI impI)
  fix evs assume "list_all P evs"
  with assms(1) have m: "list_all P (fst (m evs))" by (simp add: preserves_def)
  obtain evs' r where mr: "m evs = (evs', r)" by (cases "m evs")
  show "list_all P (fst (seq m f evs))"
  proof (cases r)
    case (Inl e)
    with m mr show ?thesis by (simp add: seq_def)
  next
    case (Inr x)
    with m mr assms(2) [of x] show ?thesis by (simp add: seq_def preserves_def)
  qed
qed

lemma preserves_if:
  "(c \<Longrightarrow> preserves P m) \<Longrightarrow> (\<not> c \<Longrightarrow> preserves P n) \<Longrightarrow> preserves P (if c then m else n)"
  by simp

lemmas preserves_intros =
  preserves_seq preserves_ret preserves_lift preserves_emit preserves_emit_checked preserves_if

lemma get_coins_list_shown:
  "snd (get_coins_list r) = [] \<or> snd (get_coins_list r) = [StError] \<or>
   snd (get_coins_list r) = [Print ''Error loading coins'']"
  by (cases r)
     (auto simp: get_coins_list_def get_coins_list_try_def requests_get_def response_json_def
       split: option.splits)

lemma get_coins_list_shown_calls:
  "get_coins_list r = (d, shown) \<Longrightarrow> filter is_data_call shown = [] \<and> filter is_chart shown = []"
  using get_coins_list_shown [of r] by auto

lemma preserves_call_get_coins_list:
  assumes "P Call_get_coins_list" "P StError" "P (Print ''Error loading coins'')"
  shows "preserves P (call_get_coins_list up)"
proof -
  obtain d shown where g: "get_coins_list (markets up) = (d, shown)"
    by (cases "get_coins_list (markets up)")
  with get_coins_list_shown [of "markets up"] assms have "list_all P shown" by auto
  with g assms(1) show ?thesis by (simp add: preserves_def call_get_coins_list_def)
qed

lemma preserves_charts:
  assumes "\<And>ev. \<not> is_data_call ev \<Longrightarrow> P ev"
  shows "preserves P (charts L h)"
proof -
  obtain p c v where h: "h = (p, c, v)" by (cases h)
  show ?thesis
    unfolding charts_def h
    by (cases p) (auto intro!: preserves_intros assms)
qed

lemma preserves_coin_detail:
  assumes "\<And>ev. ev \<noteq> Call_get_global_data \<Longrightarrow> P ev"
  shows "preserves P (coin_detail L up coin days)"
  unfolding coin_detail_def
  by (intro preserves_seq preserves_lift preserves_emit preserves_emit_checked
      preserves_charts assms) auto

lemma preserves_detail_view:
  assumes "\<And>ev. ev \<noteq> Call_get_global_data \<Longrightarrow> P ev"
  shows "preserves P (detail_view L up coins_data selection days)"
  unfolding detail_view_def
  by (intro preserves_intros preserves_coin_detail assms)

subsection \<open>The example inputs, evaluated\<close>

lemma sample_markets:
  "get_coins_list (markets (sample_upstream g h)) = (JArr [overview_coin, bitcoin, bitcoin_fork], [])"
  by (simp add: sample_upstream_def get_coins_list_def get_coins_list_try_def requests_get_def
      response_json_def)

lemma sample_names:
  "coin_names_loop [overview_coin, bitcoin, bitcoin_fork] [JStr ''Global Overview''] =
     Inr [JStr ''Global Overview'', JStr ''Global Overview'', JStr ''Bitcoin'', JStr ''Bitcoin'']"
  by (simp add: overview_coin_def bitcoin_def bitcoin_fork_def)

lemma sample_find:
  "find_coin [overview_coin, bitcoin, bitcoin_fork] ''Bitcoin'' = Inr bitcoin"
  by (simp add: overview_coin_def bitcoin_def bitcoin_fork_def)

lemma bitcoin_fields:
  "getitem bitcoin ''name'' = Inr (JStr ''Bitcoin'')"
  "getitem bitcoin ''symbol'' = Inr (JStr ''btc'')"
  "getitem bitcoin ''image'' = Inr (JStr ''https://example.org/btc.png'')"
  "getitem bitcoin ''current_price'' = Inr (JInt 50000)"
  "getitem bitcoin ''price_change_percentage_24h'' = Inr (JFloat (Fin (- 5 / 2)))"
  "getitem bitcoin ''high_24h'' = Inr (JInt 51000)"
  "getitem bitcoin ''id'' = Inr (JStr ''bitcoin'')"
  by (simp_all add: bitcoin_def)

lemma example_lib_accepts [simp]:
  "st_reject_image example_lib x = None" "st_reject_delta example_lib x = None"
  "st_reject_table example_lib t = None" "st_reject_chart example_lib fr = None"
  by (simp_all add: example_lib_def)

lemma example_lib_accepts_all: "accepts_tables_and_charts example_lib"
  by (simp add: accepts_tables_and_charts_def)

lemma bitcoin_fields_ok: "detail_fields_ok example_lib bitcoin"
  by (simp add: detail_fields_ok_def bitcoin_fields)

lemma sample_coins_ok: "list_all (coin_ok example_lib) [overview_coin, bitcoin, bitcoin_fork]"
  by (simp add: coin_ok_def detail_fields_ok_def overview_coin_def bitcoin_def bitcoin_fork_def)

lemma sample_global_ok:
  "global_stats_ok (get_global_data (global_resp (sample_upstream sample_global h)))"
  by (simp add: sample_upstream_def sample_global_def get_global_data_def
      get_global_data_try_def requests_get_def response_json_def global_stats_ok_def
      float_of_int_examples)

lemma sample_history:
  "get_coin_history example_lib (Response 200 (Some rate_limited_history)) =
     (Some [(Some 1000000000, JInt 49000)], Some [(Some 1000000000, JInt 900000)],
      Some [(Some 1000000000, JInt 7000)])"
  by (simp add: get_coin_history_def get_coin_history_try_def requests_get_def
      response_json_def rate_limited_history_def time_indexed_def column_values_def
      time_index_def int64_examples)

subsection \<open>The timeframe\<close>

text \<open>
  C6. The timeframe conversion of \<^verbatim>\<open>main\<close> sends \<^verbatim>\<open>"7 Days"\<close> to 7,
  \<^verbatim>\<open>"30 Days"\<close> to 30, \<^verbatim>\<open>"90 Days"\<close> to 90 and every other string to 7.
\<close>

theorem days_int_mapping:
  "days_int ''7 Days'' = 7 \<and> days_int ''30 Days'' = 30 \<and> days_int ''90 Days'' = 90 \<and>
   (s \<notin> {''7 Days'', ''30 Days'', ''90 Days''} \<longrightarrow> days_int s = 7)"
  by (simp add: days_int_def)

theorem days_int_mapping_witness:
  "''1 Year'' \<notin> {''7 Days'', ''30 Days'', ''90 Days''} \<and> days_int ''1 Year'' = 7"
  using days_int_mapping [of "''1 Year''"] by simp

subsection \<open>Finding the selected coin\<close>

lemma getitem_Inr_truthy: "getitem c k = Inr v \<Longrightarrow> truthy c"
  by (cases c) (auto split: option.splits)

lemma getitem_Inr_dict:
  "getitem c k = Inr v \<Longrightarrow> \<exists>kvs. c = JObj kvs \<and> map_of kvs k = Some v"
  by (cases c) (auto split: option.splits)

lemma find_coin_first:
  assumes "\<forall>c \<in> set pre. \<exists>n. getitem c ''name'' = Inr n \<and> n \<noteq> JStr selection"
    and "getitem coin ''name'' = Inr (JStr selection)"
  shows "find_coin (pre @ coin # post) selection = Inr coin"
  using assms by (induction pre) auto

lemma find_coin_none:
  assumes "\<forall>c \<in> set coins. \<exists>n. getitem c ''name'' = Inr n \<and> n \<noteq> JStr selection"
  shows "find_coin coins selection = Inr JNull"
  using assms by (induction coins) auto

lemma find_coin_Inr:
  "find_coin coins selection = Inr c \<Longrightarrow>
     c = JNull \<or> (c \<in> set coins \<and> getitem c ''name'' = Inr (JStr selection))"
proof (induction coins)
  case Nil
  then show ?case by simp
next
  case (Cons coin rest)
  show ?case
  proof (cases "getitem coin ''name''")
    case (Inl e)
    with Cons.prems show ?thesis by simp
  next
    case (Inr name)
    with Cons show ?thesis by (cases "name = JStr selection") auto
  qed
qed

lemma find_coin_total:
  "list_all (coin_ok L) coins \<Longrightarrow>
     \<exists>c. find_coin coins selection = Inr c \<and> (c = JNull \<or> c \<in> set coins)"
proof (induction coins)
  case Nil
  then show ?case by simp
next
  case (Cons c cs)
  from Cons.prems obtain name where "getitem c ''name'' = Inr name"
    by (auto simp: coin_ok_def split: sum.splits)
  with Cons show ?case by (cases "name = JStr selection") auto
qed

lemma coin_names_loop_total:
  "list_all (coin_ok L) coins \<Longrightarrow> \<exists>names. coin_names_loop coins acc = Inr names"
proof (induction coins arbitrary: acc)
  case Nil
  then show ?case by simp
next
  case (Cons c cs)
  from Cons.prems obtain name where "getitem c ''name'' = Inr name"
    by (auto simp: coin_ok_def split: sum.splits)
  with Cons show ?case by simp
qed

subsection \<open>The overview entry\<close>

lemma preserves_global_pass:
  "preserves global_pass_event (main_body L up ''Global Overview'' days_option)"
  unfolding main_body_def global_view_def metrics_panel_def
  by (intro preserves_intros preserves_call_get_coins_list) simp_all

lemma extends_ret: "extends (ret x)"
  by (simp add: extends_def)

lemma extends_lift: "extends (lift r)"
  by (simp add: extends_def lift_def)

lemma extends_emit: "extends (emit ev)"
  by (simp add: extends_def)

lemma extends_emit_checked: "extends (emit_checked rejected ev)"
  by (cases rejected) (simp_all add: extends_def)

lemma extends_seq:
  assumes "extends m" and "\<And>x. extends (f x)"
  shows "extends (seq m f)"
  unfolding extends_def
proof
  fix evs
  from assms(1) obtain r1 where r1: "fst (m evs) = evs @ r1" unfolding extends_def by blast
  obtain evs' res where mr: "m evs = (evs', res)" by (cases "m evs")
  show "\<exists>rest. fst (seq m f evs) = evs @ rest"
  proof (cases res)
    case (Inl e)
    with mr r1 show ?thesis by (simp add: seq_def)
  next
    case (Inr x)
    from assms(2) [of x] obtain r2 where "fst (f x evs') = evs' @ r2"
      unfolding extends_def by blast
    with Inr mr r1 show ?thesis by (simp add: seq_def)
  qed
qed

lemma extends_if: "(c \<Longrightarrow> extends m) \<Longrightarrow> (\<not> c \<Longrightarrow> extends n) \<Longrightarrow> extends (if c then m else n)"
  by simp

lemmas extends_intros =
  extends_seq extends_ret extends_lift extends_emit extends_emit_checked extends_if

lemma extends_metrics_panel: "extends (metrics_panel L global_stats)"
  unfolding metrics_panel_def by (intro extends_intros)

lemma global_view_starts:
  "\<exists>rest. fst (global_view L up coins_data evs) =
     evs @ [Title ''Global Crypto Market'', Call_get_global_data] @ rest"
proof -
  let ?tail = "seq (if truthy (get_global_data (global_resp up))
                    then metrics_panel L (get_global_data (global_resp up)) else ret ()) (\<lambda>_.
     seq (emit (Write ''---'')) (\<lambda>_.
     seq (emit (Subheader ''Top 100 Rankings'')) (\<lambda>_.
     seq (lift (simple_df coins_data)) (\<lambda>df.
     emit_checked (st_reject_table L df) (Dataframe df)))))"
  have "extends ?tail" by (intro extends_intros extends_metrics_panel)
  then obtain rest where
    "fst (?tail (evs @ [Title ''Global Crypto Market'', Call_get_global_data])) =
       (evs @ [Title ''Global Crypto Market'', Call_get_global_data]) @ rest"
    unfolding extends_def by blast
  moreover have "global_view L up coins_data evs =
      ?tail (evs @ [Title ''Global Crypto Market'', Call_get_global_data])"
    by (simp add: global_view_def)
  ultimately show ?thesis by simp
qed

lemma main_global_run:
  assumes "get_coins_list (markets up) = (JArr coins, shown)" "coins \<noteq> []"
    and "coin_names_loop coins [JStr ''Global Overview''] = Inr coin_names"
  shows "main L up ''Global Overview'' days_option =
        global_view L up (JArr coins)
          ([SidebarTitle ''Navigation'',
            SidebarInfo ''Developed by Bassel Abdelmottaleb for HBKU application.'',
            Call_get_coins_list] @ shown @
           [Selectbox ''Choose View'' coin_names, SidebarWrite ''---'',
            Radio ''Timeframe'' [''7 Days'', ''30 Days'', ''90 Days'']])"
  using assms by (simp add: main_def main_body_def seq_call_get_coins_list)

lemma global_view_without_stats:
  assumes "\<not> truthy (get_global_data (global_resp up))"
    and "simple_df coins_data = Inr t" "st_reject_table L t = None"
  shows "global_view L up coins_data evs =
     (evs @ [Title ''Global Crypto Market'', Call_get_global_data, Write ''---'',
             Subheader ''Top 100 Rankings'', Dataframe t], Inr ())"
  using assms by (simp add: global_view_def)

lemma global_view_with_stats:
  assumes "truthy (get_global_data (global_resp up))"
    and "bnd (getitem (get_global_data (global_resp up)) ''total_market_cap'')
           (\<lambda>d. getitem d ''eur'') = Inr total_mcap"
    and "bnd (getitem (get_global_data (global_resp up)) ''total_volume'')
           (\<lambda>d. getitem d ''eur'') = Inr total_vol"
    and "bnd (getitem (get_global_data (global_resp up)) ''market_cap_percentage'')
           (\<lambda>d. getitem d ''btc'') = Inr btc_percentage"
    and "format_big_number L total_mcap = Inr mcap_text"
    and "format_big_number L total_vol = Inr vol_text"
    and "format_spec_f 1 btc_percentage = Inr btc_text"
    and "simple_df coins_data = Inr t" "st_reject_table L t = None"
  shows "global_view L up coins_data evs =
     (evs @ [Title ''Global Crypto Market'', Call_get_global_data, Columns 3,
             Metric ''Market Cap'' mcap_text None, Metric ''Volume (24h)'' vol_text None,
             Metric ''BTC Dominance'' (btc_text @ '' %'') None, Write ''---'',
             Subheader ''Top 100 Rankings'', Dataframe t], Inr ())"
  using assms by (simp add: global_view_def metrics_panel_def)

lemma sample_table:
  "simple_df (JArr [overview_coin, bitcoin, bitcoin_fork]) =
     Inr [[Some (JStr ''Global Overview''), Some (JStr ''glo''), Some (JInt 1), Some (JInt 0),
           Some (JInt 500)],
          [Some (JStr ''Bitcoin''), Some (JStr ''btc''), Some (JInt 50000),
           Some (JFloat (Fin (- 5 / 2))), Some (JInt 900000000000)],
          [Some (JStr ''Bitcoin''), Some (JStr ''btf''), Some (JInt 3), Some (JInt 1),
           Some (JInt 1000)]]"
  by (simp add: simple_df_def overview_coin_def bitcoin_def bitcoin_fork_def shown_columns_def)

lemma sample_stats:
  "get_global_data (global_resp (sample_upstream sample_global h)) =
     JObj [(''total_market_cap'', JObj [(''eur'', JInt 2500000000)]),
           (''total_volume'', JObj [(''eur'', JInt 1200000)]),
           (''market_cap_percentage'', JObj [(''btc'', JFloat (Fin (5 / 2)))])]"
  "get_global_data (global_resp (sample_upstream TransportFailure h)) = JNull"
  by (simp_all add: sample_upstream_def sample_global_def get_global_data_def
      get_global_data_try_def requests_get_def response_json_def)

lemma sample_texts:
  "format_big_number example_lib (JInt 2500000000) = Inr (euro @ '' 2.50 Mrd.'')"
  "format_big_number example_lib (JInt 1200000) = Inr (euro @ '' 1.20 Mio.'')"
  "format_spec_f 1 (JFloat (Fin (5 / 2))) = Inr ''2.5''"
  by (simp_all add: format_big_number_def float_of_int_examples round_double_examples
      fixed_examples)

text \<open>
  C9. With the selection \<^verbatim>\<open>"Global Overview"\<close> a render pass renders and calls only
  what belongs to the global view and to the sidebar: nothing of the detail view, no
  title of a coin, image, coin metric, history request, tab or chart. Once the coin list
  is loaded and named, whatever the names of the coins, also when one of them is
  \<^verbatim>\<open>"Global Overview"\<close>, the pass shows the title \<^verbatim>\<open>"Global Crypto Market"\<close> and
  calls \<^verbatim>\<open>get_global_data\<close> right after the sidebar; and where the table of the coins
  can be built and shown, the pass is the global view in full: the title, the request,
  the three metrics when the statistics are there and can be formatted (none when
  \<^verbatim>\<open>get_global_data\<close> gave \<^verbatim>\<open>None\<close>), the rule, the subheader and the table.
\<close>

theorem global_overview_takes_global_branch:
  "list_all global_pass_event (fst (main L up ''Global Overview'' days_option)) \<and>
   (get_coins_list (markets up) = (JArr coins, shown) \<and> coins \<noteq> [] \<and>
    coin_names_loop coins [JStr ''Global Overview''] = Inr coin_names \<longrightarrow>
      (\<exists>rest. fst (main L up ''Global Overview'' days_option) =
         [SidebarTitle ''Navigation'',
          SidebarInfo ''Developed by Bassel Abdelmottaleb for HBKU application.'',
          Call_get_coins_list] @ shown @
         [Selectbox ''Choose View'' coin_names, SidebarWrite ''---'',
          Radio ''Timeframe'' [''7 Days'', ''30 Days'', ''90 Days''],
          Title ''Global Crypto Market'', Call_get_global_data] @ rest) \<and>
      (\<not> truthy (get_global_data (global_resp up)) \<and>
       simple_df (JArr coins) = Inr t \<and> st_reject_table L t = None \<longrightarrow>
         main L up ''Global Overview'' days_option =
           ([SidebarTitle ''Navigation'',
             SidebarInfo ''Developed by Bassel Abdelmottaleb for HBKU application.'',
             Call_get_coins_list] @ shown @
            [Selectbox ''Choose View'' coin_names, SidebarWrite ''---'',
             Radio ''Timeframe'' [''7 Days'', ''30 Days'', ''90 Days''],
             Title ''Global Crypto Market'', Call_get_global_data, Write ''---'',
             Subheader ''Top 100 Rankings'', Dataframe t], Inr ())) \<and>
      (truthy (get_global_data (global_resp up)) \<and>
       bnd (getitem (get_global_data (global_resp up)) ''total_market_cap'')
         (\<lambda>d. getitem d ''eur'') = Inr total_mcap \<and>
       bnd (getitem (get_global_data (global_resp up)) ''total_volume'')
         (\<lambda>d. getitem d ''eur'') = Inr total_vol \<and>
       bnd (getitem (get_global_data (global_resp up)) ''market_cap_percentage'')
         (\<lambda>d. getitem d ''btc'') = Inr btc_percentage \<and>
       format_big_number L total_mcap = Inr mcap_text \<and>
       format_big_number L total_vol = Inr vol_text \<and>
       format_spec_f 1 btc_percentage = Inr btc_text \<and>
       simple_df (JArr coins) = Inr t \<and> st_reject_table L t = None \<longrightarrow>
         main L up ''Global Overview'' days_option =
           ([SidebarTitle ''Navigation'',
             SidebarInfo ''Developed by Bassel Abdelmottaleb for HBKU application.'',
             Call_get_coins_list] @ shown @
            [Selectbox ''Choose View'' coin_names, SidebarWrite ''---'',
             Radio ''Timeframe'' [''7 Days'', ''30 Days'', ''90 Days''],
             Title ''Global Crypto Market'', Call_get_global_data, Columns 3,
             Metric ''Market Cap'' mcap_text None, Metric ''Volume (24h)'' vol_text None,
             Metric ''BTC Dominance'' (btc_text @ '' %'') None, Write ''---'',
             Subheader ''Top 100 Rankings'', Dataframe t], Inr ())))"
proof (intro conjI impI)
  show "list_all global_pass_event (fst (main L up ''Global Overview'' days_option))"
    unfolding main_def using preserves_global_pass by (rule preservesD)
next
  assume a: "get_coins_list (markets up) = (JArr coins, shown) \<and> coins \<noteq> [] \<and>
    coin_names_loop coins [JStr ''Global Overview''] = Inr coin_names"
  then have run: "main L up ''Global Overview'' days_option =
        global_view L up (JArr coins)
          ([SidebarTitle ''Navigation'',
            SidebarInfo ''Developed by Bassel Abdelmottaleb for HBKU application.'',
            Call_get_coins_list] @ shown @
           [Selectbox ''Choose View'' coin_names, SidebarWrite ''---'',
            Radio ''Timeframe'' [''7 Days'', ''30 Days'', ''90 Days'']])"
    using main_global_run [of up coins shown coin_names L days_option] by simp
  show "\<exists>rest. fst (main L up ''Global Overview'' days_option) =
         [SidebarTitle ''Navigation'',
          SidebarInfo ''Developed by Bassel Abdelmottaleb for HBKU application.'',
          Call_get_coins_list] @ shown @
         [Selectbox ''Choose View'' coin_names, SidebarWrite ''---'',
          Radio ''Timeframe'' [''7 Days'', ''30 Days'', ''90 Days''],
          Title ''Global Crypto Market'', Call_get_global_data] @ rest"
    unfolding run
    using global_view_starts [of L up "JArr coins"
        "[SidebarTitle ''Navigation'',
          SidebarInfo ''Developed by Bassel Abdelmottaleb for HBKU application.'',
          Call_get_coins_list] @ shown @
         [Selectbox ''Choose View'' coin_names, SidebarWrite ''---'',
          Radio ''Timeframe'' [''7 Days'', ''30 Days'', ''90 Days'']]"]
    by simp
  {
    assume b: "\<not> truthy (get_global_data (global_resp up)) \<and>
       simple_df (JArr coins) = Inr t \<and> st_reject_table L t = None"
    then show "main L up ''Global Overview'' days_option =
           ([SidebarTitle ''Navigation'',
             SidebarInfo ''Developed by Bassel Abdelmottaleb for HBKU application.'',
             Call_get_coins_list] @ shown @
            [Selectbox ''Choose View'' coin_names, SidebarWrite ''---'',
             Radio ''Timeframe'' [''7 Days'', ''30 Days'', ''90 Days''],
             Title ''Global Crypto Market'', Call_get_global_data, Write ''---'',
             Subheader ''Top 100 Rankings'', Dataframe t], Inr ())"
      unfolding run using global_view_without_stats [of up "JArr coins" t L] by simp
  }
  {
    assume c: "truthy (get_global_data (global_resp up)) \<and>
       bnd (getitem (get_global_data (global_resp up)) ''total_market_cap'')
         (\<lambda>d. getitem d ''eur'') = Inr total_mcap \<and>
       bnd (getitem (get_global_data (global_resp up)) ''total_volume'')
         (\<lambda>d. getitem d ''eur'') = Inr total_vol \<and>
       bnd (getitem (get_global_data (global_resp up)) ''market_cap_percentage'')
         (\<lambda>d. getitem d ''btc'') = Inr btc_percentage \<and>
       format_big_number L total_mcap = Inr mcap_text \<and>
       format_big_number L total_vol = Inr vol_text \<and>
       format_spec_f 1 btc_percentage = Inr btc_text \<and>
       simple_df (JArr coins) = Inr t \<and> st_reject_table L t = None"
    then show "main L up ''Global Overview'' days_option =
           ([SidebarTitle ''Navigation'',
             SidebarInfo ''Developed by Bassel Abdelmottaleb for HBKU application.'',
             Call_get_coins_list] @ shown @
            [Selectbox ''Choose View'' coin_names, SidebarWrite ''---'',
             Radio ''Timeframe'' [''7 Days'', ''30 Days'', ''90 Days''],
             Title ''Global Crypto Market'', Call_get_global_data, Columns 3,
             Metric ''Market Cap'' mcap_text None, Metric ''Volume (24h)'' vol_text None,
             Metric ''BTC Dominance'' (btc_text @ '' %'') None, Write ''---'',
             Subheader ''Top 100 Rankings'', Dataframe t], Inr ())"
      unfolding run
      using global_view_with_stats [of up total_mcap total_vol btc_percentage L mcap_text
          vol_text btc_text "JArr coins" t]
      by simp
  }
qed

theorem global_overview_takes_global_branch_witness:
  "getitem overview_coin ''name'' = Inr (JStr ''Global Overview'') \<and>
   main example_lib (sample_upstream sample_global TransportFailure) ''Global Overview''
       ''7 Days'' =
     ([SidebarTitle ''Navigation'',
       SidebarInfo ''Developed by Bassel Abdelmottaleb for HBKU application.'',
       Call_get_coins_list,
       Selectbox ''Choose View''
         [JStr ''Global Overview'', JStr ''Global Overview'', JStr ''Bitcoin'', JStr ''Bitcoin''],
       SidebarWrite ''---'', Radio ''Timeframe'' [''7 Days'', ''30 Days'', ''90 Days''],
       Title ''Global Crypto Market'', Call_get_global_data, Columns 3,
       Metric ''Market Cap'' (euro @ '' 2.50 Mrd.'') None,
       Metric ''Volume (24h)'' (euro @ '' 1.20 Mio.'') None,
       Metric ''BTC Dominance'' ''2.5 %'' None, Write ''---'',
       Subheader ''Top 100 Rankings'',
       Dataframe
         [[Some (JStr ''Global Overview''), Some (JStr ''glo''), Some (JInt 1), Some (JInt 0),
           Some (JInt 500)],
          [Some (JStr ''Bitcoin''), Some (JStr ''btc''), Some (JInt 50000),
           Some (JFloat (Fin (- 5 / 2))), Some (JInt 900000000000)],
          [Some (JStr ''Bitcoin''), Some (JStr ''btf''), Some (JInt 3), Some (JInt 1),
           Some (JInt 1000)]]], Inr ()) \<and>
   main example_lib (sample_upstream TransportFailure TransportFailure) ''Global Overview''
       ''7 Days'' =
     ([SidebarTitle ''Navigation'',
       SidebarInfo ''Developed by Bassel Abdelmottaleb for HBKU application.'',
       Call_get_coins_list,
       Selectbox ''Choose View''
         [JStr ''Global Overview'', JStr ''Global Overview'', JStr ''Bitcoin'', JStr ''Bitcoin''],
       SidebarWrite ''---'', Radio ''Timeframe'' [''7 Days'', ''30 Days'', ''90 Days''],
       Title ''Global Crypto Market'', Call_get_global_data, Write ''---'',
       Subheader ''Top 100 Rankings'',
       Dataframe
         [[Some (JStr ''Global Overview''), Some (JStr ''glo''), Some (JInt 1), Some (JInt 0),
           Some (JInt 500)],
          [Some (JStr ''Bitcoin''), Some (JStr ''btc''), Some (JInt 50000),
           Some (JFloat (Fin (- 5 / 2))), Some (JInt 900000000000)],
          [Some (JStr ''Bitcoin''), Some (JStr ''btf''), Some (JInt 3), Some (JInt 1),
           Some (JInt 1000)]]], Inr ())"
proof -
  let ?names = "[JStr ''Global Overview'', JStr ''Global Overview'', JStr ''Bitcoin'',
                 JStr ''Bitcoin'']"
  let ?t = "[[Some (JStr ''Global Overview''), Some (JStr ''glo''), Some (JInt 1), Some (JInt 0),
           Some (JInt 500)],
          [Some (JStr ''Bitcoin''), Some (JStr ''btc''), Some (JInt 50000),
           Some (JFloat (Fin (- 5 / 2))), Some (JInt 900000000000)],
          [Some (JStr ''Bitcoin''), Some (JStr ''btf''), Some (JInt 3), Some (JInt 1),
           Some (JInt 1000)]]"
  have "getitem overview_coin ''name'' = Inr (JStr ''Global Overview'')"
    by (simp add: overview_coin_def)
  moreover have "main example_lib (sample_upstream sample_global TransportFailure)
       ''Global Overview'' ''7 Days'' =
     ([SidebarTitle ''Navigation'',
       SidebarInfo ''Developed by Bassel Abdelmottaleb for HBKU application.'',
       Call_get_coins_list, Selectbox ''Choose View'' ?names,
       SidebarWrite ''---'', Radio ''Timeframe'' [''7 Days'', ''30 Days'', ''90 Days''],
       Title ''Global Crypto Market'', Call_get_global_data, Columns 3,
       Metric ''Market Cap'' (euro @ '' 2.50 Mrd.'') None,
       Metric ''Volume (24h)'' (euro @ '' 1.20 Mio.'') None,
       Metric ''BTC Dominance'' ''2.5 %'' None, Write ''---'',
       Subheader ''Top 100 Rankings'', Dataframe ?t], Inr ())"
    using global_overview_takes_global_branch
      [where L = example_lib and up = "sample_upstream sample_global TransportFailure"
         and coins = "[overview_coin, bitcoin, bitcoin_fork]" and shown = "[]"
         and coin_names = ?names and days_option = "''7 Days''" and t = ?t
         and total_mcap = "JInt 2500000000" and total_vol = "JInt 1200000"
         and btc_percentage = "JFloat (Fin (5 / 2))"
         and mcap_text = "euro @ '' 2.50 Mrd.''" and vol_text = "euro @ '' 1.20 Mio.''"
         and btc_text = "''2.5''"]
      sample_markets [of sample_global TransportFailure] sample_names sample_table
      sample_texts
    by (simp add: sample_stats)
  moreover have "main example_lib (sample_upstream TransportFailure TransportFailure)
       ''Global Overview'' ''7 Days'' =
     ([SidebarTitle ''Navigation'',
       SidebarInfo ''Developed by Bassel Abdelmottaleb for HBKU application.'',
       Call_get_coins_list, Selectbox ''Choose View'' ?names,
       SidebarWrite ''---'', Radio ''Timeframe'' [''7 Days'', ''30 Days'', ''90 Days''],
       Title ''Global Crypto Market'', Call_get_global_data, Write ''---'',
       Subheader ''Top 100 Rankings'', Dataframe ?t], Inr ())"
    using global_overview_takes_global_branch
      [where L = example_lib and up = "sample_upstream TransportFailure TransportFailure"
         and coins = "[overview_coin, bitcoin, bitcoin_fork]" and shown = "[]"
         and coin_names = ?names and days_option = "''7 Days''" and t = ?t]
      sample_markets [of TransportFailure TransportFailure] sample_names sample_table
    by (simp add: sample_stats)
  ultimately show ?thesis by simp
qed

subsection \<open>The detail view and the history request\<close>

lemma preserves_main_body:
  assumes "selection \<noteq> ''Global Overview''"
  shows "preserves (\<lambda>ev. ev \<noteq> Call_get_global_data) (main_body L up selection days_option)"
  unfolding main_body_def using assms
  by (intro preserves_intros preserves_call_get_coins_list preserves_detail_view) simp_all

lemma no_global_call:
  assumes "selection \<noteq> ''Global Overview''"
  shows "list_all (\<lambda>ev. ev \<noteq> Call_get_global_data) (fst (main L up selection days_option))"
  unfolding main_def using preserves_main_body [OF assms] by (rule preservesD)

lemma charts_success:
  assumes "st_reject_chart L p = None" "st_reject_chart L v = None" "st_reject_chart L c = None"
  shows "charts L (Some p, Some c, Some v) evs =
           (evs @ [Tabs [''Price Chart'', ''Volume & Cap''], LineChart p, BarChart v, AreaChart c],
            Inr ())"
  using assms by (simp add: charts_def)

lemma charts_no_calls:
  "filter is_data_call (fst (charts L h evs)) = filter is_data_call evs"
  by (auto simp: charts_def seq_def emit_checked_def emit_def lift_def
      split: option.splits prod.splits)

lemma charts_sentinel:
  "charts L (None, None, None) evs =
     (evs @ [Warning ''Could not load chart data. API limit might be reached.''], Inr ())"
  by (simp add: charts_def)

lemma main_detail_run:
  assumes "selection \<noteq> ''Global Overview''"
    and "get_coins_list (markets up) = (JArr coins, shown)"
    and "coin_names_loop coins [JStr ''Global Overview''] = Inr coin_names"
    and "find_coin coins selection = Inr coin"
    and "getitem coin ''name'' = Inr name"
    and "getitem coin ''symbol'' = Inr (JStr symbol)"
    and "getitem coin ''image'' = Inr img"
    and "st_reject_image L img = None"
    and "getitem coin ''current_price'' = Inr price"
    and "getitem coin ''price_change_percentage_24h'' = Inr change"
    and "st_reject_delta L change = None"
    and "getitem coin ''high_24h'' = Inr high"
    and "getitem coin ''id'' = Inr coin_id"
  shows "main L up selection days_option =
     charts L (get_coin_history L (market_chart up coin_id (days_int days_option)))
       ([SidebarTitle ''Navigation'',
         SidebarInfo ''Developed by Bassel Abdelmottaleb for HBKU application.'',
         Call_get_coins_list] @ shown @
        [Selectbox ''Choose View'' coin_names, SidebarWrite ''---'',
         Radio ''Timeframe'' [''7 Days'', ''30 Days'', ''90 Days''],
         Title (fstr L name @ '' ('' @ str_upper L symbol @ '')''),
         Image img 64, Columns 3,
         Metric ''Current Price'' (euro @ '' '' @ fstr L price) None,
         Metric ''24h Change'' (fstr L change @ '' %'') (Some change),
         Metric ''24h High'' (euro @ '' '' @ fstr L high) None,
         Write ''---'',
         Subheader (''History ('' @ show_int (days_int days_option) @ '' Days)''),
         Call_get_coin_history coin_id (days_int days_option)])"
proof -
  have truthy: "truthy coin" using assms(5) by (rule getitem_Inr_truthy)
  have nonempty: "coins \<noteq> []" using assms(4) truthy by (cases coins) auto
  show ?thesis
    using assms truthy nonempty
    by (simp add: main_def main_body_def seq_call_get_coins_list detail_view_def
        coin_detail_def)
qed

lemma main_no_match:
  assumes "selection \<noteq> ''Global Overview''"
    and "get_coins_list (markets up) = (JArr coins, shown)" "coins \<noteq> []"
    and "coin_names_loop coins [JStr ''Global Overview''] = Inr coin_names"
    and "find_coin coins selection = Inr JNull"
  shows "main L up selection days_option =
     ([SidebarTitle ''Navigation'',
       SidebarInfo ''Developed by Bassel Abdelmottaleb for HBKU application.'',
       Call_get_coins_list] @ shown @
      [Selectbox ''Choose View'' coin_names, SidebarWrite ''---'',
       Radio ''Timeframe'' [''7 Days'', ''30 Days'', ''90 Days'']], Inr ())"
  using assms by (simp add: main_def main_body_def seq_call_get_coins_list detail_view_def)

lemma example_texts:
  "str_upper example_lib ''btc'' = ''BTC''"
  "show_int 50000 = ''50000''"
  "show_int 51000 = ''51000''"
  "format_value example_lib v = ''?''"
  "show_int 7 = ''7''"
  by (simp_all add: example_lib_def ascii_upper_def show_int_def dec_examples)

text \<open>
  C10, as stated, fails: with two coins named Bitcoin of which the first has no
  \<^verbatim>\<open>'symbol'\<close>, the scan stops at the first, the pass raises KeyError on reading
  its symbol, and nothing of either coin is displayed.
\<close>

theorem first_match_not_displayed:
  "find_coin [bitcoin_stub, bitcoin] ''Bitcoin'' = Inr bitcoin_stub \<and>
   main example_lib stub_upstream ''Bitcoin'' ''7 Days'' =
     ([SidebarTitle ''Navigation'',
       SidebarInfo ''Developed by Bassel Abdelmottaleb for HBKU application.'',
       Call_get_coins_list,
       Selectbox ''Choose View'' [JStr ''Global Overview'', JStr ''Bitcoin'', JStr ''Bitcoin''],
       SidebarWrite ''---'', Radio ''Timeframe'' [''7 Days'', ''30 Days'', ''90 Days'']],
      Inl KeyError)"
proof -
  have m: "get_coins_list (markets stub_upstream) = (JArr [bitcoin_stub, bitcoin], [])"
    by (simp add: stub_upstream_def get_coins_list_def get_coins_list_try_def requests_get_def
        response_json_def)
  have f: "find_coin [bitcoin_stub, bitcoin] ''Bitcoin'' = Inr bitcoin_stub"
    by (simp add: bitcoin_stub_def)
  have n: "coin_names_loop [bitcoin_stub, bitcoin] [JStr ''Global Overview''] =
      Inr [JStr ''Global Overview'', JStr ''Bitcoin'', JStr ''Bitcoin'']"
    by (simp add: bitcoin_stub_def bitcoin_def)
  have s: "getitem bitcoin_stub ''name'' = Inr (JStr ''Bitcoin'')"
    "getitem bitcoin_stub ''symbol'' = Inl KeyError" "truthy bitcoin_stub"
    by (simp_all add: bitcoin_stub_def)
  have "main example_lib stub_upstream ''Bitcoin'' ''7 Days'' =
     ([SidebarTitle ''Navigation'',
       SidebarInfo ''Developed by Bassel Abdelmottaleb for HBKU application.'',
       Call_get_coins_list,
       Selectbox ''Choose View'' [JStr ''Global Overview'', JStr ''Bitcoin'', JStr ''Bitcoin''],
       SidebarWrite ''---'', Radio ''Timeframe'' [''7 Days'', ''30 Days'', ''90 Days'']],
      Inl KeyError)"
    by (simp add: main_def main_body_def seq_call_get_coins_list [OF m] s bitcoin_fields(1)
        detail_view_def coin_detail_def)
  with f show ?thesis by simp
qed

text \<open>
  C10, amended. The detail view finds the coin by a scan in fetched order that stops
  at the first coin whose name equals the selection: when the coins before \<open>coin\<close> have
  other names and \<open>coin\<close> has the selected name, \<open>coin\<close> is the selected coin, whatever
  follows it, also further coins of that name. It is displayed when it has the fields
  that the detail view reads: with a string as \<^verbatim>\<open>'symbol'\<close>, with \<^verbatim>\<open>'image'\<close>,
  \<^verbatim>\<open>'current_price'\<close>, \<^verbatim>\<open>'price_change_percentage_24h'\<close>, \<^verbatim>\<open>'high_24h'\<close> and
  \<^verbatim>\<open>'id'\<close>, and with the presentation layer taking the image and the change, the
  pass shows, after the sidebar, the title made of the selected name and the upper-cased
  symbol of \<open>coin\<close>, its image, its price, change and high as metrics, the rule and the
  history subheader, requests the history for the id of \<open>coin\<close>, and goes on with the
  charts. When no coin has the selected name, nothing is rendered and nothing is
  requested beyond the sidebar.
\<close>

theorem detail_view_first_match:
  "((\<forall>c \<in> set pre. \<exists>n. getitem c ''name'' = Inr n \<and> n \<noteq> JStr selection) \<and>
    getitem coin ''name'' = Inr (JStr selection)
    \<longrightarrow> find_coin (pre @ coin # post) selection = Inr coin \<and>
        (selection \<noteq> ''Global Overview'' \<and>
         get_coins_list (markets up) = (JArr (pre @ coin # post), shown) \<and>
         coin_names_loop (pre @ coin # post) [JStr ''Global Overview''] = Inr coin_names \<and>
         getitem coin ''symbol'' = Inr (JStr symbol) \<and>
         getitem coin ''image'' = Inr img \<and> st_reject_image L img = None \<and>
         getitem coin ''current_price'' = Inr price \<and>
         getitem coin ''price_change_percentage_24h'' = Inr change \<and>
         st_reject_delta L change = None \<and>
         getitem coin ''high_24h'' = Inr high \<and>
         getitem coin ''id'' = Inr coin_id
         \<longrightarrow> main L up selection days_option =
               charts L (get_coin_history L (market_chart up coin_id (days_int days_option)))
                 ([SidebarTitle ''Navigation'',
                   SidebarInfo ''Developed by Bassel Abdelmottaleb for HBKU application.'',
                   Call_get_coins_list] @ shown @
                  [Selectbox ''Choose View'' coin_names, SidebarWrite ''---'',
                   Radio ''Timeframe'' [''7 Days'', ''30 Days'', ''90 Days''],
                   Title (selection @ '' ('' @ str_upper L symbol @ '')''),
                   Image img 64, Columns 3,
                   Metric ''Current Price'' (euro @ '' '' @ fstr L price) None,
                   Metric ''24h Change'' (fstr L change @ '' %'') (Some change),
                   Metric ''24h High'' (euro @ '' '' @ fstr L high) None,
                   Write ''---'',
                   Subheader (''History ('' @ show_int (days_int days_option) @ '' Days)''),
                   Call_get_coin_history coin_id (days_int days_option)]))) \<and>
   ((\<forall>c \<in> set coins. \<exists>n. getitem c ''name'' = Inr n \<and> n \<noteq> JStr selection)
    \<longrightarrow> find_coin coins selection = Inr JNull \<and>
        detail_view L up (JArr coins) selection days evs = (evs, Inr ()) \<and>
        (selection \<noteq> ''Global Overview'' \<and> coins \<noteq> [] \<and>
         get_coins_list (markets up) = (JArr coins, shown) \<and>
         coin_names_loop coins [JStr ''Global Overview''] = Inr coin_names
         \<longrightarrow> main L up selection days_option =
               ([SidebarTitle ''Navigation'',
                 SidebarInfo ''Developed by Bassel Abdelmottaleb for HBKU application.'',
                 Call_get_coins_list] @ shown @
                [Selectbox ''Choose View'' coin_names, SidebarWrite ''---'',
                 Radio ''Timeframe'' [''7 Days'', ''30 Days'', ''90 Days'']], Inr ())))"
proof (intro conjI impI)
  assume a: "(\<forall>c \<in> set pre. \<exists>n. getitem c ''name'' = Inr n \<and> n \<noteq> JStr selection) \<and>
    getitem coin ''name'' = Inr (JStr selection)"
  then show found: "find_coin (pre @ coin # post) selection = Inr coin"
    using find_coin_first [of pre selection coin post] by simp
  assume b: "selection \<noteq> ''Global Overview'' \<and>
         get_coins_list (markets up) = (JArr (pre @ coin # post), shown) \<and>
         coin_names_loop (pre @ coin # post) [JStr ''Global Overview''] = Inr coin_names \<and>
         getitem coin ''symbol'' = Inr (JStr symbol) \<and>
         getitem coin ''image'' = Inr img \<and> st_reject_image L img = None \<and>
         getitem coin ''current_price'' = Inr price \<and>
         getitem coin ''price_change_percentage_24h'' = Inr change \<and>
         st_reject_delta L change = None \<and>
         getitem coin ''high_24h'' = Inr high \<and>
         getitem coin ''id'' = Inr coin_id"
  show "main L up selection days_option =
               charts L (get_coin_history L (market_chart up coin_id (days_int days_option)))
                 ([SidebarTitle ''Navigation'',
                   SidebarInfo ''Developed by Bassel Abdelmottaleb for HBKU application.'',
                   Call_get_coins_list] @ shown @
                  [Selectbox ''Choose View'' coin_names, SidebarWrite ''---'',
                   Radio ''Timeframe'' [''7 Days'', ''30 Days'', ''90 Days''],
                   Title (selection @ '' ('' @ str_upper L symbol @ '')''),
                   Image img 64, Columns 3,
                   Metric ''Current Price'' (euro @ '' '' @ fstr L price) None,
                   Metric ''24h Change'' (fstr L change @ '' %'') (Some change),
                   Metric ''24h High'' (euro @ '' '' @ fstr L high) None,
                   Write ''---'',
                   Subheader (''History ('' @ show_int (days_int days_option) @ '' Days)''),
                   Call_get_coin_history coin_id (days_int days_option)])"
    using main_detail_run [of selection up "pre @ coin # post" shown coin_names coin
        "JStr selection" symbol img L price change high coin_id days_option] a b found
    by simp
next
  assume a: "\<forall>c \<in> set coins. \<exists>n. getitem c ''name'' = Inr n \<and> n \<noteq> JStr selection"
  then show none: "find_coin coins selection = Inr JNull"
    by (rule find_coin_none)
  then show "detail_view L up (JArr coins) selection days evs = (evs, Inr ())"
    by (simp add: detail_view_def)
  assume "selection \<noteq> ''Global Overview'' \<and> coins \<noteq> [] \<and>
         get_coins_list (markets up) = (JArr coins, shown) \<and>
         coin_names_loop coins [JStr ''Global Overview''] = Inr coin_names"
  with none show "main L up selection days_option =
               ([SidebarTitle ''Navigation'',
                 SidebarInfo ''Developed by Bassel Abdelmottaleb for HBKU application.'',
                 Call_get_coins_list] @ shown @
                [Selectbox ''Choose View'' coin_names, SidebarWrite ''---'',
                 Radio ''Timeframe'' [''7 Days'', ''30 Days'', ''90 Days'']], Inr ())"
    using main_no_match [of selection up coins shown coin_names L days_option] by simp
qed

theorem detail_view_first_match_witness:
  "find_coin [overview_coin, bitcoin, bitcoin_fork] ''Bitcoin'' = Inr bitcoin \<and>
   main example_lib (sample_upstream TransportFailure TransportFailure) ''Bitcoin'' ''7 Days'' =
     ([SidebarTitle ''Navigation'',
       SidebarInfo ''Developed by Bassel Abdelmottaleb for HBKU application.'',
       Call_get_coins_list,
       Selectbox ''Choose View''
         [JStr ''Global Overview'', JStr ''Global Overview'', JStr ''Bitcoin'', JStr ''Bitcoin''],
       SidebarWrite ''---'', Radio ''Timeframe'' [''7 Days'', ''30 Days'', ''90 Days''],
       Title ''Bitcoin (BTC)'', Image (JStr ''https://example.org/btc.png'') 64, Columns 3,
       Metric ''Current Price'' (euro @ '' 50000'') None,
       Metric ''24h Change'' ''? %'' (Some (JFloat (Fin (- 5 / 2)))),
       Metric ''24h High'' (euro @ '' 51000'') None,
       Write ''---'', Subheader ''History (7 Days)'',
       Call_get_coin_history (JStr ''bitcoin'') 7,
       Warning ''Could not load chart data. API limit might be reached.''], Inr ()) \<and>
   main example_lib (sample_upstream TransportFailure TransportFailure) ''Dogecoin'' ''7 Days'' =
     ([SidebarTitle ''Navigation'',
       SidebarInfo ''Developed by Bassel Abdelmottaleb for HBKU application.'',
       Call_get_coins_list,
       Selectbox ''Choose View''
         [JStr ''Global Overview'', JStr ''Global Overview'', JStr ''Bitcoin'', JStr ''Bitcoin''],
       SidebarWrite ''---'', Radio ''Timeframe'' [''7 Days'', ''30 Days'', ''90 Days'']],
      Inr ())"
proof -
  let ?up = "sample_upstream TransportFailure TransportFailure"
  let ?names = "[JStr ''Global Overview'', JStr ''Global Overview'', JStr ''Bitcoin'',
                 JStr ''Bitcoin'']"
  have names:
    "getitem overview_coin ''name'' = Inr (JStr ''Global Overview'')"
    "getitem bitcoin_fork ''name'' = Inr (JStr ''Bitcoin'')"
    by (simp_all add: overview_coin_def bitcoin_fork_def)
  have history: "get_coin_history example_lib (market_chart ?up (JStr ''bitcoin'') 7) =
      (None, None, None)"
    by (simp add: sample_upstream_def get_coin_history_def get_coin_history_try_def
        requests_get_def response_json_def)
  have "find_coin ([overview_coin] @ bitcoin # [bitcoin_fork]) ''Bitcoin'' = Inr bitcoin \<and>
     main example_lib ?up ''Bitcoin'' ''7 Days'' =
       charts example_lib (get_coin_history example_lib (market_chart ?up (JStr ''bitcoin'')
           (days_int ''7 Days'')))
         ([SidebarTitle ''Navigation'',
           SidebarInfo ''Developed by Bassel Abdelmottaleb for HBKU application.'',
           Call_get_coins_list] @ [] @
          [Selectbox ''Choose View'' ?names, SidebarWrite ''---'',
           Radio ''Timeframe'' [''7 Days'', ''30 Days'', ''90 Days''],
           Title (''Bitcoin'' @ '' ('' @ str_upper example_lib ''btc'' @ '')''),
           Image (JStr ''https://example.org/btc.png'') 64, Columns 3,
           Metric ''Current Price'' (euro @ '' '' @ fstr example_lib (JInt 50000)) None,
           Metric ''24h Change'' (fstr example_lib (JFloat (Fin (- 5 / 2))) @ '' %'')
             (Some (JFloat (Fin (- 5 / 2)))),
           Metric ''24h High'' (euro @ '' '' @ fstr example_lib (JInt 51000)) None,
           Write ''---'',
           Subheader (''History ('' @ show_int (days_int ''7 Days'') @ '' Days)''),
           Call_get_coin_history (JStr ''bitcoin'') (days_int ''7 Days'')])"
    using detail_view_first_match
      [where pre = "[overview_coin]" and coin = bitcoin and post = "[bitcoin_fork]"
         and selection = "''Bitcoin''" and L = example_lib and days_option = "''7 Days''"
         and up = ?up and shown = "[]" and coin_names = ?names and symbol = "''btc''"
         and img = "JStr ''https://example.org/btc.png''" and price = "JInt 50000"
         and change = "JFloat (Fin (- 5 / 2))" and high = "JInt 51000"
         and coin_id = "JStr ''bitcoin''"]
      names bitcoin_fields sample_markets [of TransportFailure TransportFailure] sample_names
    by simp
  then have "find_coin [overview_coin, bitcoin, bitcoin_fork] ''Bitcoin'' = Inr bitcoin \<and>
     main example_lib ?up ''Bitcoin'' ''7 Days'' =
     ([SidebarTitle ''Navigation'',
       SidebarInfo ''Developed by Bassel Abdelmottaleb for HBKU application.'',
       Call_get_coins_list, Selectbox ''Choose View'' ?names,
       SidebarWrite ''---'', Radio ''Timeframe'' [''7 Days'', ''30 Days'', ''90 Days''],
       Title ''Bitcoin (BTC)'', Image (JStr ''https://example.org/btc.png'') 64, Columns 3,
       Metric ''Current Price'' (euro @ '' 50000'') None,
       Metric ''24h Change'' ''? %'' (Some (JFloat (Fin (- 5 / 2)))),
       Metric ''24h High'' (euro @ '' 51000'') None,
       Write ''---'', Subheader ''History (7 Days)'',
       Call_get_coin_history (JStr ''bitcoin'') 7,
       Warning ''Could not load chart data. API limit might be reached.''], Inr ())"
    by (simp add: days_int_def history charts_sentinel example_texts names bitcoin_fields(1))
  moreover have "main example_lib ?up ''Dogecoin'' ''7 Days'' =
     ([SidebarTitle ''Navigation'',
       SidebarInfo ''Developed by Bassel Abdelmottaleb for HBKU application.'',
       Call_get_coins_list, Selectbox ''Choose View'' ?names,
       SidebarWrite ''---'', Radio ''Timeframe'' [''7 Days'', ''30 Days'', ''90 Days'']],
      Inr ())"
    using detail_view_first_match
      [where coins = "[overview_coin, bitcoin, bitcoin_fork]" and selection = "''Dogecoin''"
         and L = example_lib and days_option = "''7 Days''" and up = ?up and shown = "[]"
         and coin_names = ?names]
      names bitcoin_fields(1) sample_markets [of TransportFailure TransportFailure] sample_names
    by simp
  ultimately show ?thesis by simp
qed

text \<open>
  C7, as stated, fails: with the selected coin found and the window \<^verbatim>\<open>"30 Days"\<close>, a
  history request that fails is made for the coin's id and 30 days, and no series is
  rendered.
\<close>

theorem detail_view_without_charts:
  "data_calls (fst (main example_lib (sample_upstream TransportFailure TransportFailure)
      ''Bitcoin'' ''30 Days'')) =
     [Call_get_coins_list, Call_get_coin_history (JStr ''bitcoin'') 30] \<and>
   rendered_charts (fst (main example_lib (sample_upstream TransportFailure TransportFailure)
      ''Bitcoin'' ''30 Days'')) = []"
proof -
  have history: "get_coin_history example_lib TransportFailure = (None, None, None)"
    by (simp add: get_coin_history_def get_coin_history_try_def requests_get_def)
  have "main example_lib (sample_upstream TransportFailure TransportFailure)
      ''Bitcoin'' ''30 Days'' =
     charts example_lib (None, None, None)
       ([SidebarTitle ''Navigation'',
         SidebarInfo ''Developed by Bassel Abdelmottaleb for HBKU application.'',
         Call_get_coins_list] @ [] @
        [Selectbox ''Choose View''
           [JStr ''Global Overview'', JStr ''Global Overview'', JStr ''Bitcoin'', JStr ''Bitcoin''],
         SidebarWrite ''---'',
         Radio ''Timeframe'' [''7 Days'', ''30 Days'', ''90 Days''],
         Title (fstr example_lib (JStr ''Bitcoin'') @ '' ('' @ str_upper example_lib ''btc'' @ '')''),
         Image (JStr ''https://example.org/btc.png'') 64, Columns 3,
         Metric ''Current Price'' (euro @ '' '' @ fstr example_lib (JInt 50000)) None,
         Metric ''24h Change'' (fstr example_lib (JFloat (Fin (- 5 / 2))) @ '' %'')
           (Some (JFloat (Fin (- 5 / 2)))),
         Metric ''24h High'' (euro @ '' '' @ fstr example_lib (JInt 51000)) None,
         Write ''---'',
         Subheader (''History ('' @ show_int (days_int ''30 Days'') @ '' Days)''),
         Call_get_coin_history (JStr ''bitcoin'') (days_int ''30 Days'')])"
    using main_detail_run [OF _ sample_markets sample_names sample_find bitcoin_fields(1)
        bitcoin_fields(2) bitcoin_fields(3) _ bitcoin_fields(4) bitcoin_fields(5) _
        bitcoin_fields(6) bitcoin_fields(7),
        of example_lib TransportFailure TransportFailure "''30 Days''"]
    by (simp add: sample_upstream_def days_int_def history)
  then show ?thesis
    by (simp add: charts_sentinel data_calls_def rendered_charts_def days_int_def)
qed

lemma detail_fields_okD:
  assumes "detail_fields_ok L coin"
  obtains symbol img price change high where
    "getitem coin ''symbol'' = Inr (JStr symbol)" "getitem coin ''image'' = Inr img"
    "st_reject_image L img = None" "getitem coin ''current_price'' = Inr price"
    "getitem coin ''price_change_percentage_24h'' = Inr change"
    "st_reject_delta L change = None" "getitem coin ''high_24h'' = Inr high"
proof -
  from assms obtain symbol where 1: "getitem coin ''symbol'' = Inr (JStr symbol)"
    by (auto simp: detail_fields_ok_def split: sum.splits json.splits)
  from assms obtain img where 2: "getitem coin ''image'' = Inr img" "st_reject_image L img = None"
    by (auto simp: detail_fields_ok_def split: sum.splits)
  from assms obtain price where 3: "getitem coin ''current_price'' = Inr price"
    by (auto simp: detail_fields_ok_def split: sum.splits)
  from assms obtain change where 4: "getitem coin ''price_change_percentage_24h'' = Inr change"
      "st_reject_delta L change = None"
    by (auto simp: detail_fields_ok_def split: sum.splits)
  from assms obtain high where 5: "getitem coin ''high_24h'' = Inr high"
    by (auto simp: detail_fields_ok_def split: sum.splits)
  from 1 2 3 4 5 that show thesis by blast
qed

text \<open>
  C7, amended. With a selection other than \<^verbatim>\<open>"Global Overview"\<close>, \<^verbatim>\<open>main\<close> never
  calls \<^verbatim>\<open>get_global_data\<close>. When moreover the selected coin is found, has the fields
  that the detail view reads and shows before the request, and the window is
  \<^verbatim>\<open>"30 Days"\<close>, the data-access calls of the pass are the coin list and one history
  request, for that coin's id and 30 days; the price, volume and market-cap series are
  rendered when the request returns them (and the presentation layer takes them), and
  the warning is shown instead when it returns \<^verbatim>\<open>(None, None, None)\<close>.
\<close>

theorem detail_view_requests_history:
  "(selection \<noteq> ''Global Overview'' \<longrightarrow>
      list_all (\<lambda>ev. ev \<noteq> Call_get_global_data) (fst (main L up selection days_option))) \<and>
   (selection \<noteq> ''Global Overview'' \<and>
    get_coins_list (markets up) = (JArr coins, shown) \<and>
    coin_names_loop coins [JStr ''Global Overview''] = Inr coin_names \<and>
    find_coin coins selection = Inr coin \<and>
    detail_fields_ok L coin \<and> getitem coin ''id'' = Inr coin_id \<longrightarrow>
      data_calls (fst (main L up selection ''30 Days'')) =
        [Call_get_coins_list, Call_get_coin_history coin_id 30] \<and>
      (case get_coin_history L (market_chart up coin_id 30) of
         (Some prices, Some caps, Some volumes) \<Rightarrow>
           st_reject_chart L prices = None \<and> st_reject_chart L volumes = None \<and>
           st_reject_chart L caps = None \<longrightarrow>
             rendered_charts (fst (main L up selection ''30 Days'')) =
               [LineChart prices, BarChart volumes, AreaChart caps] \<and>
             snd (main L up selection ''30 Days'') = Inr ()
       | _ \<Rightarrow>
           rendered_charts (fst (main L up selection ''30 Days'')) = [] \<and>
           last (fst (main L up selection ''30 Days'')) =
             Warning ''Could not load chart data. API limit might be reached.'' \<and>
           snd (main L up selection ''30 Days'') = Inr ()))"
proof (intro conjI impI)
  assume "selection \<noteq> ''Global Overview''"
  then show "list_all (\<lambda>ev. ev \<noteq> Call_get_global_data) (fst (main L up selection days_option))"
    by (rule no_global_call)
next
  assume a: "selection \<noteq> ''Global Overview'' \<and>
    get_coins_list (markets up) = (JArr coins, shown) \<and>
    coin_names_loop coins [JStr ''Global Overview''] = Inr coin_names \<and>
    find_coin coins selection = Inr coin \<and>
    detail_fields_ok L coin \<and> getitem coin ''id'' = Inr coin_id"
  then obtain symbol img price change high where f:
    "getitem coin ''symbol'' = Inr (JStr symbol)" "getitem coin ''image'' = Inr img"
    "st_reject_image L img = None" "getitem coin ''current_price'' = Inr price"
    "getitem coin ''price_change_percentage_24h'' = Inr change"
    "st_reject_delta L change = None" "getitem coin ''high_24h'' = Inr high"
    using detail_fields_okD [of L coin] by blast
  from a f(1) have "coin \<noteq> JNull" by auto
  with a have name: "getitem coin ''name'' = Inr (JStr selection)"
    using find_coin_Inr [of coins selection coin] by blast
  have shown: "filter is_data_call shown = []" "filter is_chart shown = []"
    using a get_coins_list_shown_calls by blast+
  have run: "main L up selection ''30 Days'' =
     charts L (get_coin_history L (market_chart up coin_id 30))
       ([SidebarTitle ''Navigation'',
         SidebarInfo ''Developed by Bassel Abdelmottaleb for HBKU application.'',
         Call_get_coins_list] @ shown @
        [Selectbox ''Choose View'' coin_names, SidebarWrite ''---'',
         Radio ''Timeframe'' [''7 Days'', ''30 Days'', ''90 Days''],
         Title (fstr L (JStr selection) @ '' ('' @ str_upper L symbol @ '')''),
         Image img 64, Columns 3,
         Metric ''Current Price'' (euro @ '' '' @ fstr L price) None,
         Metric ''24h Change'' (fstr L change @ '' %'') (Some change),
         Metric ''24h High'' (euro @ '' '' @ fstr L high) None,
         Write ''---'',
         Subheader (''History ('' @ show_int 30 @ '' Days)''),
         Call_get_coin_history coin_id 30])"
    using main_detail_run [of selection up coins shown coin_names coin "JStr selection" symbol
        img L price change high coin_id "''30 Days''"] a name f
    by (simp add: days_int_def)
  consider (sentinel) "get_coin_history L (market_chart up coin_id 30) = (None, None, None)"
    | (frames) p c v where
        "get_coin_history L (market_chart up coin_id 30) = (Some p, Some c, Some v)"
    using get_coin_history_cases [of L "market_chart up coin_id 30"] by blast
  then have calls_charts:
    "data_calls (fst (main L up selection ''30 Days'')) =
        [Call_get_coins_list, Call_get_coin_history coin_id 30] \<and>
      (case get_coin_history L (market_chart up coin_id 30) of
         (Some prices, Some caps, Some volumes) \<Rightarrow>
           st_reject_chart L prices = None \<and> st_reject_chart L volumes = None \<and>
           st_reject_chart L caps = None \<longrightarrow>
             rendered_charts (fst (main L up selection ''30 Days'')) =
               [LineChart prices, BarChart volumes, AreaChart caps] \<and>
             snd (main L up selection ''30 Days'') = Inr ()
       | _ \<Rightarrow>
           rendered_charts (fst (main L up selection ''30 Days'')) = [] \<and>
           last (fst (main L up selection ''30 Days'')) =
             Warning ''Could not load chart data. API limit might be reached.'' \<and>
           snd (main L up selection ''30 Days'') = Inr ())"
  proof cases
    case sentinel
    then show ?thesis
      using shown by (simp add: run charts_sentinel data_calls_def rendered_charts_def)
  next
    case frames
    have "data_calls (fst (main L up selection ''30 Days'')) =
        [Call_get_coins_list, Call_get_coin_history coin_id 30]"
      using shown by (simp add: run charts_no_calls data_calls_def)
    moreover have "rendered_charts (fst (main L up selection ''30 Days'')) =
               [LineChart p, BarChart v, AreaChart c] \<and>
             snd (main L up selection ''30 Days'') = Inr ()"
      if "st_reject_chart L p = None" "st_reject_chart L v = None" "st_reject_chart L c = None"
      using shown that by (simp add: run frames charts_success rendered_charts_def)
    ultimately show ?thesis by (simp add: frames)
  qed
  from calls_charts show "data_calls (fst (main L up selection ''30 Days'')) =
        [Call_get_coins_list, Call_get_coin_history coin_id 30]" by simp
  from calls_charts show "case get_coin_history L (market_chart up coin_id 30) of
         (Some prices, Some caps, Some volumes) \<Rightarrow>
           st_reject_chart L prices = None \<and> st_reject_chart L volumes = None \<and>
           st_reject_chart L caps = None \<longrightarrow>
             rendered_charts (fst (main L up selection ''30 Days'')) =
               [LineChart prices, BarChart volumes, AreaChart caps] \<and>
             snd (main L up selection ''30 Days'') = Inr ()
       | _ \<Rightarrow>
           rendered_charts (fst (main L up selection ''30 Days'')) = [] \<and>
           last (fst (main L up selection ''30 Days'')) =
             Warning ''Could not load chart data. API limit might be reached.'' \<and>
           snd (main L up selection ''30 Days'') = Inr ()" by simp
qed

theorem detail_view_requests_history_witness:
  "data_calls (fst (main example_lib
       (sample_upstream TransportFailure (Response 200 (Some rate_limited_history)))
       ''Bitcoin'' ''30 Days'')) =
     [Call_get_coins_list, Call_get_coin_history (JStr ''bitcoin'') 30] \<and>
   rendered_charts (fst (main example_lib
       (sample_upstream TransportFailure (Response 200 (Some rate_limited_history)))
       ''Bitcoin'' ''30 Days'')) =
     [LineChart [(Some 1000000000, JInt 49000)], BarChart [(Some 1000000000, JInt 7000)],
      AreaChart [(Some 1000000000, JInt 900000)]]"
  using detail_view_requests_history
    [where L = example_lib
       and up = "sample_upstream TransportFailure (Response 200 (Some rate_limited_history))"
       and selection = "''Bitcoin''" and coins = "[overview_coin, bitcoin, bitcoin_fork]"
       and shown = "[]" and coin = bitcoin and coin_id = "JStr ''bitcoin''"
       and coin_names = "[JStr ''Global Overview'', JStr ''Global Overview'', JStr ''Bitcoin'',
                          JStr ''Bitcoin'']"]
    sample_markets [of TransportFailure "Response 200 (Some rate_limited_history)"]
    sample_names sample_find bitcoin_fields_ok bitcoin_fields(7) sample_history
  by (simp add: sample_upstream_def)

subsection \<open>Responses on which a pass raises, and on which it does not\<close>

text \<open>
  C2, as stated, fails: with a global-stats object that lacks \<^verbatim>\<open>'total_market_cap'\<close>,
  the global view raises KeyError.
\<close>

theorem main_raises_on_missing_key:
  "snd (main example_lib (sample_upstream missing_cap_global TransportFailure)
         ''Global Overview'' ''7 Days'') = Inl KeyError"
  by (simp add: main_def main_body_def seq_call_get_coins_list [OF sample_markets]
      overview_coin_def bitcoin_def bitcoin_fork_def global_view_def metrics_panel_def)
     (simp add: sample_upstream_def missing_cap_global_def get_global_data_def
      get_global_data_try_def requests_get_def response_json_def)

lemma format_big_number_ok: "amount_ok v \<Longrightarrow> \<exists>s. format_big_number L v = Inr s"
  by (cases v) (auto simp: format_big_number_def split: sum.splits)

lemma format_spec_f_ok: "amount_ok v \<Longrightarrow> v \<noteq> JNull \<Longrightarrow> \<exists>s. format_spec_f p v = Inr s"
  by (cases v) (auto split: sum.splits)

lemma metrics_panel_ok:
  assumes "global_stats_ok g"
  shows "snd (metrics_panel L g evs) = Inr ()"
proof -
  from assms obtain v1 where 1:
    "bnd (getitem g ''total_market_cap'') (\<lambda>d. getitem d ''eur'') = Inr v1" "amount_ok v1"
    by (auto simp: global_stats_ok_def split: sum.splits)
  from assms obtain v2 where 2:
    "bnd (getitem g ''total_volume'') (\<lambda>d. getitem d ''eur'') = Inr v2" "amount_ok v2"
    by (auto simp: global_stats_ok_def split: sum.splits)
  from assms obtain v3 where 3:
    "bnd (getitem g ''market_cap_percentage'') (\<lambda>d. getitem d ''btc'') = Inr v3"
    "amount_ok v3" "v3 \<noteq> JNull"
    by (auto simp: global_stats_ok_def split: sum.splits)
  obtain s1 where s1: "format_big_number L v1 = Inr s1"
    using format_big_number_ok [OF 1(2)] by blast
  obtain s2 where s2: "format_big_number L v2 = Inr s2"
    using format_big_number_ok [OF 2(2)] by blast
  obtain s3 where s3: "format_spec_f (Suc 0) v3 = Inr s3"
    using format_spec_f_ok [OF 3(2) 3(3)] by blast
  show ?thesis
    by (simp add: metrics_panel_def 1 2 3 s1 s2 s3)
qed

lemma coin_ok_columns:
  assumes "coin_ok L c"
  shows "\<exists>kvs. dict_items c = Some kvs \<and> (\<forall>col \<in> set shown_columns. map_of kvs col \<noteq> None)"
proof -
  from assms obtain v where "getitem c ''name'' = Inr v"
    by (auto simp: coin_ok_def split: sum.splits)
  then obtain kvs where c: "c = JObj kvs" using getitem_Inr_dict by blast
  from assms have "detail_fields_ok L c" by (simp add: coin_ok_def)
  then have "map_of kvs ''symbol'' \<noteq> None" "map_of kvs ''current_price'' \<noteq> None"
    "map_of kvs ''price_change_percentage_24h'' \<noteq> None"
    unfolding detail_fields_ok_def c by (auto split: sum.splits option.splits)
  moreover from assms have "map_of kvs ''name'' \<noteq> None" "map_of kvs ''market_cap'' \<noteq> None"
    unfolding coin_ok_def c by (auto split: sum.splits option.splits)
  ultimately show ?thesis by (simp add: c shown_columns_def)
qed

lemma those_dict_items:
  "list_all (coin_ok L) coins \<Longrightarrow>
     \<exists>ds. those (map dict_items coins) = Some ds \<and> length ds = length coins \<and>
          (\<forall>d \<in> set ds. \<forall>col \<in> set shown_columns. map_of d col \<noteq> None)"
proof (induction coins)
  case Nil
  then show ?case by simp
next
  case (Cons c cs)
  then obtain ds where ds: "those (map dict_items cs) = Some ds" "length ds = length cs"
    "\<forall>d \<in> set ds. \<forall>col \<in> set shown_columns. map_of d col \<noteq> None"
    by auto
  from Cons.prems obtain kvs where kvs: "dict_items c = Some kvs"
    "\<forall>col \<in> set shown_columns. map_of kvs col \<noteq> None"
    using coin_ok_columns [of L c] by auto
  from ds kvs show ?case by simp
qed

lemma simple_df_ok:
  assumes "list_all (coin_ok L) coins" "coins \<noteq> []"
  shows "\<exists>t. simple_df (JArr coins) = Inr t"
proof -
  obtain ds where ds: "those (map dict_items coins) = Some ds" "length ds = length coins"
    "\<forall>d \<in> set ds. \<forall>col \<in> set shown_columns. map_of d col \<noteq> None"
    using those_dict_items [OF assms(1)] by blast
  with assms(2) obtain d where "d \<in> set ds" by (cases ds) auto
  with ds(3) have "\<forall>c \<in> set shown_columns. \<exists>d \<in> set ds. map_of d c \<noteq> None" by blast
  with ds(1) show ?thesis by (simp add: simple_df_def)
qed

lemma global_view_ok:
  assumes "list_all (coin_ok L) coins" "coins \<noteq> []"
    and "truthy (get_global_data (global_resp up)) \<longrightarrow>
           global_stats_ok (get_global_data (global_resp up))"
    and "accepts_tables_and_charts L"
  shows "snd (global_view L up (JArr coins) evs) = Inr ()"
proof -
  obtain t where t: "simple_df (JArr coins) = Inr t"
    using simple_df_ok [OF assms(1,2)] by blast
  from assms(4) have acc: "st_reject_table L t = None"
    by (simp add: accepts_tables_and_charts_def)
  show ?thesis
  proof (cases "truthy (get_global_data (global_resp up))")
    case False
    then show ?thesis by (simp add: global_view_def t acc)
  next
    case True
    with assms(3) have ok: "global_stats_ok (get_global_data (global_resp up))" by simp
    obtain evs' where m:
      "metrics_panel L (get_global_data (global_resp up))
         (evs @ [Title ''Global Crypto Market'', Call_get_global_data]) = (evs', Inr ())"
      using metrics_panel_ok [OF ok, of L "evs @ [Title ''Global Crypto Market'', Call_get_global_data]"]
      by (cases "metrics_panel L (get_global_data (global_resp up))
         (evs @ [Title ''Global Crypto Market'', Call_get_global_data])") auto
    show ?thesis
      using True by (simp add: global_view_def seq_def [of "metrics_panel L _"] m t acc)
  qed
qed

lemma charts_ok:
  assumes "accepts_tables_and_charts L"
  shows "snd (charts L (get_coin_history L r) evs) = Inr ()"
proof -
  from assms have acc: "\<And>fr. st_reject_chart L fr = None"
    by (simp add: accepts_tables_and_charts_def)
  from get_coin_history_cases [of L r] show ?thesis
  proof
    assume "get_coin_history L r = (None, None, None)"
    then show ?thesis by (simp add: charts_sentinel)
  next
    assume "\<exists>p c v. get_coin_history L r = (Some p, Some c, Some v) \<and>
            get_coin_history_try L r = Inr (p, c, v)"
    then obtain p c v where "get_coin_history L r = (Some p, Some c, Some v)" by blast
    then show ?thesis by (simp add: charts_success acc)
  qed
qed

lemma coin_detail_ok:
  assumes "coin_ok L coin" "accepts_tables_and_charts L"
  shows "snd (coin_detail L up coin days evs) = Inr ()"
proof -
  from assms(1) have d: "detail_fields_ok L coin" by (simp add: coin_ok_def)
  from assms(1) obtain name coin_id where n: "getitem coin ''name'' = Inr name"
    "getitem coin ''id'' = Inr coin_id"
    by (auto simp: coin_ok_def split: sum.splits)
  from d obtain symbol img price change high where f:
    "getitem coin ''symbol'' = Inr (JStr symbol)" "getitem coin ''image'' = Inr img"
    "st_reject_image L img = None" "getitem coin ''current_price'' = Inr price"
    "getitem coin ''price_change_percentage_24h'' = Inr change"
    "st_reject_delta L change = None" "getitem coin ''high_24h'' = Inr high"
    by (rule detail_fields_okD)
  show ?thesis
    by (simp add: coin_detail_def n f charts_ok [OF assms(2)])
qed

lemma detail_view_ok:
  assumes "list_all (coin_ok L) coins" "accepts_tables_and_charts L"
  shows "snd (detail_view L up (JArr coins) selection days evs) = Inr ()"
proof -
  obtain c where c: "find_coin coins selection = Inr c" "c = JNull \<or> c \<in> set coins"
    using find_coin_total [OF assms(1)] by blast
  show ?thesis
  proof (cases "truthy c")
    case False
    with c show ?thesis by (simp add: detail_view_def)
  next
    case True
    with c have "c \<in> set coins" by auto
    with assms(1) have "coin_ok L c" by (simp add: list_all_iff)
    with c True show ?thesis
      by (simp add: detail_view_def coin_detail_ok [OF _ assms(2)])
  qed
qed

text \<open>
  C2, amended. \<^verbatim>\<open>main\<close> does not raise when: the coin list is a list, either
  empty or of coins that are dictionaries with the keys \<^verbatim>\<open>'name'\<close>, \<^verbatim>\<open>'id'\<close>,
  \<^verbatim>\<open>'market_cap'\<close>, \<^verbatim>\<open>'symbol'\<close>, \<^verbatim>\<open>'image'\<close>, \<^verbatim>\<open>'current_price'\<close>,
  \<^verbatim>\<open>'price_change_percentage_24h'\<close> and \<^verbatim>\<open>'high_24h'\<close>, the symbol being a
  string; the global statistics are \<^verbatim>\<open>None\<close> (or another false value), or have the
  three nested entries, the market capitalisation and the volume in euro each being
  \<^verbatim>\<open>None\<close>, a boolean, a float or an integer that has a float, and the share of
  bitcoin the same but not \<^verbatim>\<open>None\<close>; and the presentation layer takes the image
  and the change of every coin, every table and every chart. This holds whatever the
  selection, the window and the answer to the history request. On the empty list the
  pass ends with the notice that the data could not be loaded.
\<close>

theorem main_does_not_raise_on_well_formed:
  "get_coins_list (markets up) = (JArr coins, shown) \<and> list_all (coin_ok L) coins \<and>
   (truthy (get_global_data (global_resp up)) \<longrightarrow>
      global_stats_ok (get_global_data (global_resp up))) \<and>
   accepts_tables_and_charts L
   \<longrightarrow> snd (main L up selection days_option) = Inr () \<and>
       (coins = [] \<longrightarrow>
          fst (main L up selection days_option) =
            [SidebarTitle ''Navigation'',
             SidebarInfo ''Developed by Bassel Abdelmottaleb for HBKU application.'',
             Call_get_coins_list] @ shown @
            [Warning ''Could not load data. Please refresh later.''])"
proof
  assume a: "get_coins_list (markets up) = (JArr coins, shown) \<and> list_all (coin_ok L) coins \<and>
   (truthy (get_global_data (global_resp up)) \<longrightarrow>
      global_stats_ok (get_global_data (global_resp up))) \<and>
   accepts_tables_and_charts L"
  show "snd (main L up selection days_option) = Inr () \<and>
       (coins = [] \<longrightarrow>
          fst (main L up selection days_option) =
            [SidebarTitle ''Navigation'',
             SidebarInfo ''Developed by Bassel Abdelmottaleb for HBKU application.'',
             Call_get_coins_list] @ shown @
            [Warning ''Could not load data. Please refresh later.''])"
  proof (cases "coins = []")
    case True
    with a show ?thesis
      by (simp add: main_def main_body_def seq_call_get_coins_list)
  next
    case False
    from a obtain names where names: "coin_names_loop coins [JStr ''Global Overview''] = Inr names"
      using coin_names_loop_total [of L coins] by blast
    show ?thesis
    proof (cases "selection = ''Global Overview''")
      case True
      with a False names show ?thesis
        by (simp add: main_def main_body_def seq_call_get_coins_list global_view_ok)
    next
      case sel: False
      with a False names show ?thesis
        by (simp add: main_def main_body_def seq_call_get_coins_list detail_view_ok)
    qed
  qed
qed

theorem main_does_not_raise_on_well_formed_witness:
  "snd (main example_lib
         (sample_upstream sample_global (Response 200 (Some rate_limited_history)))
         ''Global Overview'' ''7 Days'') = Inr () \<and>
   snd (main example_lib
         (sample_upstream sample_global (Response 200 (Some rate_limited_history)))
         ''Bitcoin'' ''30 Days'') = Inr () \<and>
   main example_lib offline_upstream ''Global Overview'' ''7 Days'' =
     ([SidebarTitle ''Navigation'',
       SidebarInfo ''Developed by Bassel Abdelmottaleb for HBKU application.'',
       Call_get_coins_list, StError,
       Warning ''Could not load data. Please refresh later.''], Inr ())"
proof -
  let ?up = "sample_upstream sample_global (Response 200 (Some rate_limited_history))"
  have "snd (main example_lib ?up ''Global Overview'' ''7 Days'') = Inr ()"
    using main_does_not_raise_on_well_formed
      [where L = example_lib and up = ?up and coins = "[overview_coin, bitcoin, bitcoin_fork]"
         and shown = "[]" and selection = "''Global Overview''" and days_option = "''7 Days''"]
      sample_markets sample_coins_ok sample_global_ok example_lib_accepts_all
    by simp
  moreover have "snd (main example_lib ?up ''Bitcoin'' ''30 Days'') = Inr ()"
    using main_does_not_raise_on_well_formed
      [where L = example_lib and up = ?up and coins = "[overview_coin, bitcoin, bitcoin_fork]"
         and shown = "[]" and selection = "''Bitcoin''" and days_option = "''30 Days''"]
      sample_markets sample_coins_ok sample_global_ok example_lib_accepts_all
    by simp
  moreover have "main example_lib offline_upstream ''Global Overview'' ''7 Days'' =
     ([SidebarTitle ''Navigation'',
       SidebarInfo ''Developed by Bassel Abdelmottaleb for HBKU application.'',
       Call_get_coins_list, StError,
       Warning ''Could not load data. Please refresh later.''], Inr ())"
  proof -
    have offline: "get_coins_list (markets offline_upstream) = (JArr [], [StError])"
      by (simp add: offline_upstream_def get_coins_list_def get_coins_list_try_def
          requests_get_def)
    have none: "get_global_data (global_resp offline_upstream) = JNull"
      by (simp add: offline_upstream_def get_global_data_def get_global_data_try_def
          requests_get_def)
    show ?thesis
      using main_does_not_raise_on_well_formed
        [where L = example_lib and up = offline_upstream and coins = "[]"
           and shown = "[StError]" and selection = "''Global Overview''"
           and days_option = "''7 Days''"]
        offline none example_lib_accepts_all
      by (simp add: prod_eq_iff)
  qed
  ultimately show ?thesis by simp
qed

end
